theory Spec2Isabelle
  imports Complex_Main
begin

unbundle bit_operations_syntax

section \<open>Python values and outcomes\<close>

text \<open>
  The values that \<^verbatim>\<open>json.load\<close> returns and \<^verbatim>\<open>json.dump\<close> accepts. A
  dict is an association list in insertion order. Floats are opaque (\<open>'f\<close>): the
  program only copies them between the player and the state record.
\<close>

datatype 'f json =
    JNull
  | JBool bool
  | JInt int
  | JFloat 'f
  | JStr string
  | JList "'f json list"
  | JDict "(string \<times> 'f json) list"

text \<open>The exceptions that \<^verbatim>\<open>load_state\<close> and \<^verbatim>\<open>dump_state\<close> can let escape.\<close>

datatype error =
    KeyError string
  | TypeError
  | ValueError
  | NotReversible
  | OSError

text \<open>
  A call either returns or raises; in both cases the effects it had up to that
  point stay in the world it leaves behind.
\<close>

datatype ('e, 'w) outcome =
    Return 'w
  | Raise 'e 'w

text \<open>\<^verbatim>\<open>state[k]\<close>: a missing key raises KeyError, a value that is not a dict TypeError.\<close>

fun getitem :: "'f json \<Rightarrow> string \<Rightarrow> error + 'f json" where
  "getitem (JDict kvs) k = (case map_of kvs k of None \<Rightarrow> Inl (KeyError k) | Some v \<Rightarrow> Inr v)"
| "getitem _ k = Inl TypeError"

text \<open>
  \<^verbatim>\<open>for song in state['playlist']\<close>: a list yields its elements, a string its
  characters, a dict its keys; anything else is not iterable.
\<close>

fun iter_json :: "'f json \<Rightarrow> error + 'f json list" where
  "iter_json (JList xs) = Inr xs"
| "iter_json (JStr s) = Inr (map (\<lambda>c. JStr [c]) s)"
| "iter_json (JDict kvs) = Inr (map (\<lambda>kv. JStr (fst kv)) kvs)"
| "iter_json _ = Inl TypeError"

section \<open>The application and its collaborators\<close>

text \<open>The three player states the program reads through \<^verbatim>\<open>player.state\<close>.\<close>

datatype State = stopped | paused | playing

text \<open>
  Calls on collaborators whose code is outside \<^verbatim>\<open>app.py\<close>, and the writes to
  the log and to the state file, in the order they happen. A receiver of
  \<^verbatim>\<open>media_about_to_changed\<close> is the closure \<^verbatim>\<open>before_media_change\<close>,
  identified by the song it captured.
\<close>

datatype ('s, 'f) call =
    InitFrom "'s list"
  | ShowPlayerPlaylist
  | Connect 's
  | Disconnect 's
  | Pause
  | SetPlayRange "'f json"
  | LoadSong 's
  | Resume
  | Stop
  | Shutdown
  | TeardownAioSupport
  | LogException string
  | ShowMsg string
  | WriteFile string
  | LogReceiverError error

text \<open>
  What the functions of \<^verbatim>\<open>app.py\<close> take from outside: the configured mode
  bits, the resolver contract (\<^verbatim>\<open>resolve\<close> raising ResolverNotFound and
  \<^verbatim>\<open>reverse\<close> failing are \<open>None\<close>), the JSON codec (\<^verbatim>\<open>json.load\<close>
  raising JSONDecodeError is \<open>None\<close>), the ordinals of the \<^verbatim>\<open>PlaybackMode\<close>
  enumeration, the ordinal of each player state, the integer that a float equals
  (\<open>None\<close> when it equals none), and the disk: \<open>write_fault = Some k\<close> means that
  a write to the state file fails once \<open>k\<close> characters have reached it.
\<close>

record ('s, 'f) env =
  MODE :: int
  resolve :: "string \<Rightarrow> 's option"
  reverse :: "'s \<Rightarrow> string option"
  json_dump :: "'f json \<Rightarrow> string"
  json_load :: "string \<Rightarrow> 'f json option"
  PlaybackMode_values :: "int list"
  State_value :: "State \<Rightarrow> int"
  float_int :: "'f \<Rightarrow> int option"
  write_fault :: "nat option"

text \<open>
  The state the program reads and writes: the state file (\<open>None\<close>: it does not
  exist), the attributes of the player and of the playlist, the receivers of the
  player's \<^verbatim>\<open>media_about_to_changed\<close> signal, and the calls made so far.
\<close>

record ('s, 'f) world =
  state_file :: "string option"
  volume :: "'f json"
  state :: State
  position :: "'f json"
  current_song :: "'s option"
  play_range :: "'f json"
  playback_mode :: int
  songs :: "'s list"
  playlist_current_song :: "'s option"
  media_about_to_changed :: "'s list"
  calls :: "('s, 'f) call list"

definition DaemonMode :: int where
  "DaemonMode = 1"

definition GuiMode :: int where
  "GuiMode = 16"

definition CliMode :: int where
  "CliMode = 256"

definition called :: "('s, 'f) call \<Rightarrow> ('s, 'f) world \<Rightarrow> ('s, 'f) world" where
  "called c w = w\<lparr>calls := calls w @ [c]\<rparr>"

text \<open>
  Modelled from the spec: \<^verbatim>\<open>Playlist.init_from\<close> is not in \<^verbatim>\<open>app.py\<close>; it
  "replace[s] the live playlist wholesale".
\<close>

definition init_from :: "'s list \<Rightarrow> ('s, 'f) world \<Rightarrow> ('s, 'f) world" where
  "init_from ss w = called (InitFrom ss) (w\<lparr>songs := ss\<rparr>)"

definition show_player_playlist :: "('s, 'f) world \<Rightarrow> ('s, 'f) world" where
  "show_player_playlist w = called ShowPlayerPlaylist w"

text \<open>
  Modelled from the spec: the methods of \<^verbatim>\<open>Player\<close> are not in \<^verbatim>\<open>app.py\<close>.
  \<^verbatim>\<open>pause\<close> leaves the player "in a paused state", \<^verbatim>\<open>resume\<close> "resumes
  playback", \<^verbatim>\<open>set_play_range\<close> sets where playback starts ("seeked to
  position"), \<^verbatim>\<open>load_song\<close> "pre-load[s] that song into the player",
  \<^verbatim>\<open>stop\<close> "stops the playback engine" and \<^verbatim>\<open>shutdown\<close> "releases engine
  resources".
\<close>

definition pause :: "('s, 'f) world \<Rightarrow> ('s, 'f) world" where
  "pause w = called Pause (w\<lparr>state := paused\<rparr>)"

definition resume :: "('s, 'f) world \<Rightarrow> ('s, 'f) world" where
  "resume w = called Resume (w\<lparr>state := playing\<rparr>)"

definition set_play_range :: "'f json \<Rightarrow> ('s, 'f) world \<Rightarrow> ('s, 'f) world" where
  "set_play_range start w = called (SetPlayRange start) (w\<lparr>play_range := start\<rparr>)"

definition load_song :: "'s \<Rightarrow> ('s, 'f) world \<Rightarrow> ('s, 'f) world" where
  "load_song s w = called (LoadSong s) (w\<lparr>current_song := Some s\<rparr>)"

definition stop :: "('s, 'f) world \<Rightarrow> ('s, 'f) world" where
  "stop w = called Stop (w\<lparr>state := stopped\<rparr>)"

definition shutdown :: "('s, 'f) world \<Rightarrow> ('s, 'f) world" where
  "shutdown w = called Shutdown w"

definition teardown_aio_support :: "('s, 'f) world \<Rightarrow> ('s, 'f) world" where
  "teardown_aio_support w = called TeardownAioSupport w"

text \<open>\<^verbatim>\<open>Signal.connect\<close> and \<^verbatim>\<open>Signal.disconnect\<close> on \<^verbatim>\<open>media_about_to_changed\<close>.\<close>

definition connect :: "'s \<Rightarrow> ('s, 'f) world \<Rightarrow> ('s, 'f) world" where
  "connect s w = called (Connect s) (w\<lparr>media_about_to_changed := media_about_to_changed w @ [s]\<rparr>)"

definition disconnect :: "'s \<Rightarrow> ('s, 'f) world \<Rightarrow> ('s, 'f) world" where
  "disconnect s w =
     called (Disconnect s) (w\<lparr>media_about_to_changed := remove1 s (media_about_to_changed w)\<rparr>)"

definition log_exception :: "string \<Rightarrow> ('s, 'f) world \<Rightarrow> ('s, 'f) world" where
  "log_exception m w = called (LogException m) w"

text \<open>\<^verbatim>\<open>App.show_msg\<close>: the message goes to the log (or to the message box of the GUI).\<close>

definition show_msg :: "string \<Rightarrow> ('s, 'f) world \<Rightarrow> ('s, 'f) world" where
  "show_msg m w = called (ShowMsg m) w"

section \<open>\<^verbatim>\<open>App.load_state\<close>\<close>

text \<open>
  \<^verbatim>\<open>PlaybackMode(v)\<close>: the member with that ordinal, ValueError when there is
  none. The lookup is by equality, so a bool and a float count as the integer they
  equal (\<^verbatim>\<open>PlaybackMode(1.0)\<close> is the member of ordinal 1).
\<close>

fun PlaybackMode :: "('s, 'f) env \<Rightarrow> 'f json \<Rightarrow> error + int" where
  "PlaybackMode env (JInt n) = (if n \<in> set (PlaybackMode_values env) then Inr n else Inl ValueError)"
| "PlaybackMode env (JBool b) =
     (if (if b then 1 else 0) \<in> set (PlaybackMode_values env)
      then Inr (if b then 1 else 0) else Inl ValueError)"
| "PlaybackMode env (JFloat x) =
     (case float_int env x of
        None \<Rightarrow> Inl ValueError
      | Some n \<Rightarrow> (if n \<in> set (PlaybackMode_values env) then Inr n else Inl ValueError))"
| "PlaybackMode env _ = Inl ValueError"

text \<open>
  The loop of lines 69-76: each reference is resolved, one that raises
  ResolverNotFound is skipped, the others are appended in order. An element that
  is not a string is outside the resolver's contract and raises.
\<close>

fun resolve_songs :: "('s, 'f) env \<Rightarrow> 'f json list \<Rightarrow> 's list \<Rightarrow> error + 's list" where
  "resolve_songs env [] acc = Inr acc"
| "resolve_songs env (JStr r # xs) acc =
     (case resolve env r of
        None \<Rightarrow> resolve_songs env xs acc
      | Some s \<Rightarrow> resolve_songs env xs (acc @ [s]))"
| "resolve_songs env (_ # xs) acc = Inl TypeError"

text \<open>
  The closure \<^verbatim>\<open>before_media_change\<close> of lines 83-87, with the song it
  captured. Only whether \<^verbatim>\<open>old_media\<close> is \<^verbatim>\<open>None\<close> matters.
\<close>

definition before_media_change ::
  "'s \<Rightarrow> string option \<Rightarrow> string \<Rightarrow> ('s, 'f) world \<Rightarrow> ('s, 'f) world" where
  "before_media_change s old_media media w =
     (if old_media \<noteq> None \<or> playlist_current_song w \<noteq> Some s
      then resume (set_play_range JNull (disconnect s w))
      else w)"

text \<open>Lines 81-99: the current song of the loaded state.\<close>

definition load_current_song ::
  "('s, 'f) env \<Rightarrow> 'f json \<Rightarrow> ('s, 'f) world \<Rightarrow> (error, ('s, 'f) world) outcome" where
  "load_current_song env st w =
     (case getitem st ''song'' of
        Inl e \<Rightarrow> Raise e w
      | Inr JNull \<Rightarrow> Return w
      | Inr (JStr r) \<Rightarrow>
          (case resolve env r of
             None \<Rightarrow> Return w
           | Some s \<Rightarrow>
               (let w1 = pause (connect s w) in
                case getitem st ''position'' of
                  Inl e \<Rightarrow> Raise e w1
                | Inr pos \<Rightarrow> Return (load_song s (set_play_range pos w1))))
      | Inr _ \<Rightarrow> Raise TypeError w)"

text \<open>Lines 77-79: the resolved songs become the playlist, and the GUI shows it.\<close>

definition install_playlist :: "('s, 'f) env \<Rightarrow> 's list \<Rightarrow> ('s, 'f) world \<Rightarrow> ('s, 'f) world" where
  "install_playlist env ss w =
     (let w' = init_from ss w
      in if ss \<noteq> [] \<and> MODE env AND GuiMode \<noteq> 0 then show_player_playlist w' else w')"

text \<open>Lines 67-99: the \<^verbatim>\<open>else\<close> branch, run when the file was read and decoded.\<close>

definition apply_state ::
  "('s, 'f) env \<Rightarrow> 'f json \<Rightarrow> ('s, 'f) world \<Rightarrow> (error, ('s, 'f) world) outcome" where
  "apply_state env st w =
     (case getitem st ''volume'' of
        Inl e \<Rightarrow> Raise e w
      | Inr v \<Rightarrow>
          (let w1 = w\<lparr>volume := v\<rparr> in
           case getitem st ''playback_mode'' of
             Inl e \<Rightarrow> Raise e w1
           | Inr pm \<Rightarrow>
               (case PlaybackMode env pm of
                  Inl e \<Rightarrow> Raise e w1
                | Inr m \<Rightarrow>
                    (let w2 = w1\<lparr>playback_mode := m\<rparr> in
                     case getitem st ''playlist'' of
                       Inl e \<Rightarrow> Raise e w2
                     | Inr pl \<Rightarrow>
                         (case iter_json pl of
                            Inl e \<Rightarrow> Raise e w2
                          | Inr refs \<Rightarrow>
                              (case resolve_songs env refs [] of
                                 Inl e \<Rightarrow> Raise e w2
                               | Inr ss \<Rightarrow>
                                   load_current_song env st (install_playlist env ss w2)))))))"

definition load_state :: "('s, 'f) env \<Rightarrow> ('s, 'f) world \<Rightarrow> (error, ('s, 'f) world) outcome" where
  "load_state env w =
     (case state_file w of
        None \<Rightarrow> Return w
      | Some text \<Rightarrow>
          (case json_load env text of
             None \<Rightarrow> Return (log_exception ''invalid state file'' w)
           | Some st \<Rightarrow> apply_state env st w))"

section \<open>\<^verbatim>\<open>App.dump_state\<close>\<close>

text \<open>The list comprehension of line 115: the first song that cannot be reversed raises.\<close>

fun reverse_all :: "('s, 'f) env \<Rightarrow> 's list \<Rightarrow> error + string list" where
  "reverse_all env [] = Inr []"
| "reverse_all env (s # ss) =
     (case reverse env s of
        None \<Rightarrow> Inl NotReversible
      | Some r \<Rightarrow> (case reverse_all env ss of Inl e \<Rightarrow> Inl e | Inr rs \<Rightarrow> Inr (r # rs)))"

text \<open>Lines 105-107: the current song as a reference, or null.\<close>

definition reverse_current :: "('s, 'f) env \<Rightarrow> 's option \<Rightarrow> error + 'f json" where
  "reverse_current env cur =
     (case cur of
        None \<Rightarrow> Inr JNull
      | Some s \<Rightarrow> (case reverse env s of None \<Rightarrow> Inl NotReversible | Some r \<Rightarrow> Inr (JStr r)))"

text \<open>The dict of lines 109-116, given the two reversed parts.\<close>

definition state_dict :: "('s, 'f) env \<Rightarrow> ('s, 'f) world \<Rightarrow> 'f json \<Rightarrow> string list \<Rightarrow> 'f json" where
  "state_dict env w song refs =
     JDict [(''playback_mode'', JInt (playback_mode w)),
            (''volume'', volume w),
            (''state'', JInt (State_value env (state w))),
            (''song'', song),
            (''position'', position w),
            (''playlist'', JList (map JStr refs))]"

text \<open>
  Lines 117-118: \<^verbatim>\<open>open(STATE_FILE, 'w')\<close> truncates the file and
  \<^verbatim>\<open>json.dump\<close> writes the text into it. When the write fails after \<open>k\<close>
  characters, those \<open>k\<close> characters are what the file holds.
\<close>

definition write_state_file ::
  "('s, 'f) env \<Rightarrow> string \<Rightarrow> ('s, 'f) world \<Rightarrow> (error, ('s, 'f) world) outcome" where
  "write_state_file env text w =
     (case write_fault env of
        None \<Rightarrow> Return (called (WriteFile text) (w\<lparr>state_file := Some text\<rparr>))
      | Some k \<Rightarrow>
          (if k < length text
           then Raise OSError (called (WriteFile (take k text)) (w\<lparr>state_file := Some (take k text)\<rparr>))
           else Return (called (WriteFile text) (w\<lparr>state_file := Some text\<rparr>))))"

text \<open>Lines 105-116: the record \<^verbatim>\<open>state\<close>, or the exception of a failed \<^verbatim>\<open>reverse\<close>.\<close>

definition snapshot :: "('s, 'f) env \<Rightarrow> ('s, 'f) world \<Rightarrow> error + 'f json" where
  "snapshot env w =
     (case reverse_current env (current_song w) of
        Inl e \<Rightarrow> Inl e
      | Inr song \<Rightarrow>
          (case reverse_all env (songs w) of
             Inl e \<Rightarrow> Inl e
           | Inr refs \<Rightarrow> Inr (state_dict env w song refs)))"

definition dump_state :: "('s, 'f) env \<Rightarrow> ('s, 'f) world \<Rightarrow> (error, ('s, 'f) world) outcome" where
  "dump_state env w =
     (case snapshot env w of
        Inl e \<Rightarrow> Raise e w
      | Inr st \<Rightarrow> write_state_file env (json_dump env st) w)"

section \<open>\<^verbatim>\<open>App.create_action\<close>\<close>

text \<open>
  What the block under \<^verbatim>\<open>with app.create_action(s) as action\<close> can raise, as
  the \<^verbatim>\<open>except\<close> clauses tell it apart: the \<^verbatim>\<open>ActionError\<close> of
  \<^verbatim>\<open>action.failed\<close>, another instance of \<^verbatim>\<open>Exception\<close>, or an exception
  outside \<^verbatim>\<open>Exception\<close> (KeyboardInterrupt, SystemExit). Each carries \<^verbatim>\<open>str(e)\<close>.
\<close>

datatype raised =
    ActionError string
  | Exception string
  | BaseException string

text \<open>\<^verbatim>\<open>Action.failed\<close>, for use inside a block.\<close>

definition failed :: "string \<Rightarrow> 'w \<Rightarrow> (raised, 'w) outcome" where
  "failed msg w = Raise (ActionError msg) w"

definition create_action ::
  "string \<Rightarrow> (('s, 'f) world \<Rightarrow> (raised, ('s, 'f) world) outcome) \<Rightarrow> ('s, 'f) world
     \<Rightarrow> (raised, ('s, 'f) world) outcome" where
  "create_action s block w =
     (case block (show_msg (s @ ''...'') w) of
        Raise (ActionError m) w' \<Rightarrow> Return (show_msg (s @ ''...failed'' @ [CHR 0x09] @ m) w')
      | Raise (Exception m) w' \<Rightarrow> Raise (Exception m) (show_msg (s @ ''...error'' @ [CHR 0x09] @ m) w')
      | Raise (BaseException m) w' \<Rightarrow> Raise (BaseException m) w'
      | Return w' \<Rightarrow> Return (show_msg (s @ ''...done'') w'))"

section \<open>Shutdown\<close>

text \<open>
  Modelled from the spec: \<^verbatim>\<open>Signal.emit\<close> is not in \<^verbatim>\<open>app.py\<close>. It "invokes
  all live subscribers synchronously in registration order and returns only after all
  have returned (or raised)", and "bus subscriber failures during the shutdown signal
  are caught and logged individually so that all other shutdown subscribers still
  run". What a receiver leaves behind when it raises stays, the failure goes to the
  log, and the emission goes on with the next receiver. The failures of a receiver are
  the exceptions of type \<open>error\<close>, all of them instances of \<^verbatim>\<open>Exception\<close>.
\<close>

definition receive ::
  "(('s, 'f) world \<Rightarrow> (error, ('s, 'f) world) outcome) \<Rightarrow> ('s, 'f) world \<Rightarrow> ('s, 'f) world" where
  "receive f w = (case f w of Return w' \<Rightarrow> w' | Raise e w' \<Rightarrow> called (LogReceiverError e) w')"

fun emit ::
  "(('s, 'f) world \<Rightarrow> (error, ('s, 'f) world) outcome) list \<Rightarrow> ('s, 'f) world \<Rightarrow> ('s, 'f) world" where
  "emit [] w = w"
| "emit (f # fs) w = emit fs (receive f w)"

text \<open>
  The receivers of \<^verbatim>\<open>about_to_shutdown\<close>: \<^verbatim>\<open>App.__init__\<close> connects
  \<^verbatim>\<open>dump_state\<close> first; \<open>others\<close> are connected later by other components.
\<close>

definition about_to_shutdown ::
  "('s, 'f) env \<Rightarrow> (('s, 'f) world \<Rightarrow> (error, ('s, 'f) world) outcome) list
     \<Rightarrow> (('s, 'f) world \<Rightarrow> (error, ('s, 'f) world) outcome) list" where
  "about_to_shutdown env others = dump_state env # others"

text \<open>\<^verbatim>\<open>_shutdown_app\<close>, lines 320-324.\<close>

definition shutdown_app ::
  "(('s, 'f) world \<Rightarrow> (error, ('s, 'f) world) outcome) list \<Rightarrow> ('s, 'f) world
     \<Rightarrow> ('s, 'f) world" where
  "shutdown_app receivers w = teardown_aio_support (shutdown (stop (emit receivers w)))"

section \<open>Notions used to state the properties\<close>

definition world_of :: "('e, 'w) outcome \<Rightarrow> 'w" where
  "world_of r = (case r of Return w \<Rightarrow> w | Raise e w \<Rightarrow> w)"

text \<open>The keys of a dict, in order (no keys for a value that is not a dict).\<close>

definition keys :: "'f json \<Rightarrow> string list" where
  "keys j = (case j of JDict kvs \<Rightarrow> map fst kvs | _ \<Rightarrow> [])"

definition is_reference :: "'f json \<Rightarrow> bool" where
  "is_reference j = (case j of JStr r \<Rightarrow> True | _ \<Rightarrow> False)"

text \<open>A song is resolvable when it reverses to a reference that resolves back to it.\<close>

definition resolvable :: "('s, 'f) env \<Rightarrow> 's \<Rightarrow> bool" where
  "resolvable env s = (case reverse env s of None \<Rightarrow> False | Some r \<Rightarrow> resolve env r = Some s)"

text \<open>
  Modelled from the spec: the player's emission of \<^verbatim>\<open>media_about_to_changed\<close> is
  not in \<^verbatim>\<open>app.py\<close>. An emission "calls all currently-live subscribers, in
  registration order, synchronously, with the emitted payload", each one once.
\<close>

definition emit_media_about_to_changed ::
  "string option \<Rightarrow> string \<Rightarrow> ('s, 'f) world \<Rightarrow> ('s, 'f) world" where
  "emit_media_about_to_changed old_media media w =
     foldl (\<lambda>u s. before_media_change s old_media media u) w (media_about_to_changed w)"

section \<open>A concrete session\<close>

text \<open>
  Songs are numbers and floats are rationals. The provider of songs 42 and 43
  exports references; song 7 comes from a provider that does not.
\<close>

definition demo_resolve :: "string \<Rightarrow> nat option" where
  "demo_resolve r =
     (if r = ''provider://X/42'' then Some 42
      else if r = ''provider://X/43'' then Some 43
      else None)"

definition demo_reverse :: "nat \<Rightarrow> string option" where
  "demo_reverse s =
     (if s = 42 then Some ''provider://X/42''
      else if s = 43 then Some ''provider://X/43''
      else None)"

fun demo_State_value :: "State \<Rightarrow> int" where
  "demo_State_value stopped = 0"
| "demo_State_value paused = 1"
| "demo_State_value playing = 2"

definition demo_state :: "State \<Rightarrow> rat json" where
  "demo_state st =
     JDict [(''playback_mode'', JInt 1),
            (''volume'', JFloat (4 / 5)),
            (''state'', JInt (demo_State_value st)),
            (''song'', JStr ''provider://X/42''),
            (''position'', JFloat 15),
            (''playlist'', JList [JStr ''provider://X/42'', JStr ''provider://X/43''])]"

definition empty_state :: "rat json" where
  "empty_state =
     JDict [(''playback_mode'', JInt 2),
            (''volume'', JInt 100),
            (''state'', JInt 0),
            (''song'', JNull),
            (''position'', JNull),
            (''playlist'', JList [])]"

definition playing_text :: string where
  \<open>playing_text = ''{"playback_mode": 1, "volume": 0.8, "state": 2, "song": "provider://X/42", "position": 15.0, "playlist": ["provider://X/42", "provider://X/43"]}''\<close>

definition stopped_text :: string where
  \<open>stopped_text = ''{"playback_mode": 1, "volume": 0.8, "state": 0, "song": "provider://X/42", "position": 15.0, "playlist": ["provider://X/42", "provider://X/43"]}''\<close>

definition empty_text :: string where
  \<open>empty_text = ''{"playback_mode": 2, "volume": 100, "state": 0, "song": null, "position": null, "playlist": []}''\<close>

text \<open>The codec on the three records above; any other text does not decode.\<close>

definition demo_json_dump :: "rat json \<Rightarrow> string" where
  "demo_json_dump j =
     (if j = demo_state playing then playing_text
      else if j = demo_state stopped then stopped_text
      else if j = empty_state then empty_text
      else ''null'')"

definition demo_json_load :: "string \<Rightarrow> rat json option" where
  "demo_json_load t =
     (if t = playing_text then Some (demo_state playing)
      else if t = stopped_text then Some (demo_state stopped)
      else if t = empty_text then Some empty_state
      else if t = ''null'' then Some JNull
      else None)"

text \<open>A rational equals an integer when it is its own floor.\<close>

definition demo_float_int :: "rat \<Rightarrow> int option" where
  "demo_float_int q = (if q = of_int \<lfloor>q\<rfloor> then Some \<lfloor>q\<rfloor> else None)"

definition demo_env :: "(nat, rat) env" where
  "demo_env =
     \<lparr>MODE = 17, resolve = demo_resolve, reverse = demo_reverse,
      json_dump = demo_json_dump, json_load = demo_json_load,
      PlaybackMode_values = [0, 1, 2, 3], State_value = demo_State_value,
      float_int = demo_float_int, write_fault = None\<rparr>"

text \<open>The same environment with a disk that fails after five characters.\<close>

definition disk_full_env :: "(nat, rat) env" where
  "disk_full_env = demo_env\<lparr>write_fault := Some 5\<rparr>"

text \<open>The same environment where the provider of song 43 is gone.\<close>

definition resolve_42_only :: "string \<Rightarrow> nat option" where
  "resolve_42_only r = (if r = ''provider://X/42'' then Some 42 else None)"

definition degraded_env :: "(nat, rat) env" where
  "degraded_env = demo_env\<lparr>resolve := resolve_42_only\<rparr>"

text \<open>A process that has just started, with no state file.\<close>

definition fresh_world :: "(nat, rat) world" where
  "fresh_world =
     \<lparr>state_file = None, volume = JInt 100, state = stopped, position = JNull,
      current_song = None, play_range = JNull, playback_mode = 2, songs = [],
      playlist_current_song = None, media_about_to_changed = [], calls = []\<rparr>"

text \<open>A session playing song 42 of the playlist 42, 43, fifteen seconds in.\<close>

definition demo_world :: "(nat, rat) world" where
  "demo_world =
     fresh_world\<lparr>volume := JFloat (4 / 5), state := playing, position := JFloat 15,
       current_song := Some 42, playback_mode := 1, songs := [42, 43],
       playlist_current_song := Some 42\<rparr>"

text \<open>The same session over a state file that an earlier run has saved.\<close>

definition saved_world :: "(nat, rat) world" where
  "saved_world = demo_world\<lparr>state_file := Some empty_text\<rparr>"

text \<open>A session whose playlist holds song 7, which cannot be reversed.\<close>

definition unreversible_world :: "(nat, rat) world" where
  "unreversible_world = saved_world\<lparr>songs := [42, 7]\<rparr>"

text \<open>A process starting over the file that \<open>demo_world\<close> saves.\<close>

definition restarted_world :: "(nat, rat) world" where
  "restarted_world = fresh_world\<lparr>state_file := Some playing_text\<rparr>"

text \<open>Another receiver of \<^verbatim>\<open>about_to_shutdown\<close>, connected by a plugin.\<close>

definition plugin_receiver :: "(nat, rat) world \<Rightarrow> (error, (nat, rat) world) outcome" where
  "plugin_receiver w = Return (show_msg ''plugin: bye'' w)"

text \<open>Blocks for \<^verbatim>\<open>create_action\<close>: one is interrupted from the keyboard, one raises.\<close>

definition interrupted_block :: "(nat, rat) world \<Rightarrow> (raised, (nat, rat) world) outcome" where
  "interrupted_block w = Raise (BaseException ''KeyboardInterrupt'') w"

definition broken_block :: "(nat, rat) world \<Rightarrow> (raised, (nat, rat) world) outcome" where
  "broken_block w = Raise (Exception ''boom'') w"

text \<open>A process starting over a state file that was cut off after five characters.\<close>

definition cut_text :: string where
  \<open>cut_text = ''{"pla''\<close>

definition cut_world :: "(nat, rat) world" where
  "cut_world = fresh_world\<lparr>state_file := Some cut_text\<rparr>"

text \<open>The session of \<open>demo_world\<close> after a shutdown that completed.\<close>

definition shut_down_world :: "(nat, rat) world" where
  "shut_down_world =
     demo_world\<lparr>state_file := Some playing_text, state := stopped,
       calls := [WriteFile playing_text, Stop, Shutdown, TeardownAioSupport]\<rparr>"

section \<open>Auxiliary facts\<close>

lemmas world_ops =
  called_def init_from_def show_player_playlist_def pause_def resume_def set_play_range_def
  load_song_def stop_def shutdown_def teardown_aio_support_def connect_def disconnect_def
  log_exception_def show_msg_def

lemmas demo_texts = playing_text_def stopped_text_def empty_text_def cut_text_def

section \<open>Loading the state file\<close>

text \<open>
  C4. \<^verbatim>\<open>load_state\<close> takes a missing state file for an absent session: it returns
  without raising and leaves the player and the playlist as they were. A file that
  does not decode (JSONDecodeError) is logged as an error and then handled the same
  way: \<^verbatim>\<open>load_state\<close> returns, and nothing but the log has changed.
\<close>

theorem load_state_absent_or_malformed:
  "(state_file w = None \<longrightarrow> load_state env w = Return w) \<and>
   (state_file w = Some text \<and> json_load env text = None \<longrightarrow>
      load_state env w = Return (w\<lparr>calls := calls w @ [LogException ''invalid state file'']\<rparr>))"
  by (simp add: load_state_def log_exception_def called_def)

theorem load_state_absent_or_malformed_witness:
  "load_state demo_env fresh_world = Return fresh_world \<and>
   load_state demo_env cut_world =
     Return (cut_world\<lparr>calls := [LogException ''invalid state file'']\<rparr>)"
proof -
  have absent: "state_file fresh_world = None"
    by (simp add: fresh_world_def)
  have malformed: "state_file cut_world = Some cut_text \<and> json_load demo_env cut_text = None"
    by (simp add: cut_world_def demo_env_def demo_json_load_def demo_texts)
  have nocalls: "calls cut_world = []"
    by (simp add: cut_world_def fresh_world_def)
  from load_state_absent_or_malformed [of fresh_world demo_env] absent
    load_state_absent_or_malformed [of cut_world demo_env cut_text] malformed nocalls
  show ?thesis by simp
qed

lemma PlaybackMode_float:
  "PlaybackMode demo_env (JFloat 1) = Inr 1" "PlaybackMode demo_env (JFloat (3 / 2)) = Inl ValueError"
proof -
  have "\<lfloor>3 / 2 :: rat\<rfloor> = 1"
    by (rule floor_unique) simp_all
  then show "PlaybackMode demo_env (JFloat (3 / 2)) = Inl ValueError"
    by (simp add: demo_env_def demo_float_int_def)
  show "PlaybackMode demo_env (JFloat 1) = Inr 1"
    by (simp add: demo_env_def demo_float_int_def)
qed

lemma resolve_songs_strings:
  "resolve_songs env (map JStr refs) acc = Inr (acc @ List.map_filter (resolve env) refs)"
  by (induction refs arbitrary: acc) (simp_all add: List.map_filter_simps split: option.split)

lemma length_map_filter_option:
  "length (List.map_filter f xs) = length xs - length (filter (\<lambda>x. f x = None) xs)"
proof (induction xs)
  case Nil
  then show ?case by (simp add: List.map_filter_simps)
next
  case (Cons x xs)
  have "length (filter (\<lambda>x. f x = None) xs) \<le> length xs"
    by simp
  with Cons show ?case
    by (cases "f x") (simp_all add: List.map_filter_simps Suc_diff_le)
qed

lemma map_filter_all_None:
  "\<forall>x\<in>set xs. f x = None \<Longrightarrow> List.map_filter f xs = []"
  by (induction xs) (simp_all add: List.map_filter_simps)

text \<open>Up to the current song, a well-formed state loads in one way.\<close>

lemma load_state_playlist:
  assumes "state_file w = Some text" and "json_load env text = Some st"
    and "getitem st ''volume'' = Inr v"
    and "getitem st ''playback_mode'' = Inr (JInt m)"
    and "m \<in> set (PlaybackMode_values env)"
    and "getitem st ''playlist'' = Inr (JList (map JStr refs))"
  shows "load_state env w =
           load_current_song env st
             (install_playlist env (List.map_filter (resolve env) refs)
                (w\<lparr>volume := v, playback_mode := m\<rparr>))"
  using assms
  by (simp add: load_state_def apply_state_def resolve_songs_strings Let_def)

lemma load_current_song_null:
  "getitem st ''song'' = Inr JNull \<Longrightarrow> load_current_song env st w = Return w"
  by (simp add: load_current_song_def)

lemma load_current_song_unresolved:
  "getitem st ''song'' = Inr (JStr r) \<Longrightarrow> resolve env r = None \<Longrightarrow>
     load_current_song env st w = Return w"
  by (simp add: load_current_song_def)

lemma load_current_song_resolved:
  "getitem st ''song'' = Inr (JStr r) \<Longrightarrow> resolve env r = Some s \<Longrightarrow>
   getitem st ''position'' = Inr pos \<Longrightarrow>
     load_current_song env st w = Return (load_song s (set_play_range pos (pause (connect s w))))"
  by (simp add: load_current_song_def Let_def)

lemma songs_install_playlist: "songs (install_playlist env ss w) = ss"
  by (simp add: install_playlist_def world_ops Let_def)

lemma calls_install_playlist:
  "calls (install_playlist env ss w) =
     calls w @ InitFrom ss # (if ss \<noteq> [] \<and> MODE env AND GuiMode \<noteq> 0 then [ShowPlayerPlaylist] else [])"
  by (simp add: install_playlist_def world_ops Let_def)

lemma load_current_song_cases:
  assumes "getitem st ''song'' = Inr sg" and "sg = JNull \<or> is_reference sg"
    and "getitem st ''position'' = Inr pos"
  shows "load_current_song env st w = Return w \<or>
         (\<exists>s. load_current_song env st w =
                 Return (load_song s (set_play_range pos (pause (connect s w)))))"
  using assms
  by (auto simp add: load_current_song_def is_reference_def Let_def
      split: json.splits option.splits)

lemma load_current_song_effect:
  assumes "getitem st ''song'' = Inr sg" and "sg = JNull \<or> is_reference sg"
    and "getitem st ''position'' = Inr pos"
  shows "\<exists>w'. load_current_song env st w = Return w' \<and> songs w' = songs w \<and>
           set (calls w) \<subseteq> set (calls w')"
  using load_current_song_cases [OF assms, of env w]
  by (auto simp add: world_ops)

text \<open>
  C2. When the loaded state holds a playlist of N reference strings of which M fail to
  resolve (ResolverNotFound), \<^verbatim>\<open>load_state\<close> returns without raising and
  installs exactly the N - M songs that resolve, in their original relative order; when
  every reference fails, the playlist becomes empty.
\<close>

theorem load_state_drops_unresolvable:
  assumes stored: "state_file w = Some text" and decoded: "json_load env text = Some st"
    and vol: "getitem st ''volume'' = Inr v"
    and pm: "getitem st ''playback_mode'' = Inr (JInt m)"
    and mode: "m \<in> set (PlaybackMode_values env)"
    and pl: "getitem st ''playlist'' = Inr (JList (map JStr refs))"
    and sg: "getitem st ''song'' = Inr sg" and ref: "sg = JNull \<or> is_reference sg"
    and pos: "getitem st ''position'' = Inr pos"
  shows "\<exists>w'. load_state env w = Return w' \<and>
           songs w' = List.map_filter (resolve env) refs \<and>
           InitFrom (List.map_filter (resolve env) refs) \<in> set (calls w') \<and>
           length (songs w') = length refs - length (filter (\<lambda>r. resolve env r = None) refs) \<and>
           ((\<forall>r\<in>set refs. resolve env r = None) \<longrightarrow> songs w' = [])"
proof -
  let ?ss = "List.map_filter (resolve env) refs"
  let ?w4 = "install_playlist env ?ss (w\<lparr>volume := v, playback_mode := m\<rparr>)"
  have step: "load_state env w = load_current_song env st ?w4"
    by (rule load_state_playlist [OF stored decoded vol pm mode pl])
  have inst: "songs ?w4 = ?ss" "InitFrom ?ss \<in> set (calls ?w4)"
    by (simp_all add: songs_install_playlist calls_install_playlist)
  from load_current_song_effect [OF sg ref pos, of env ?w4]
  obtain w' where ret: "load_current_song env st ?w4 = Return w'"
    and same: "songs w' = songs ?w4" and more: "set (calls ?w4) \<subseteq> set (calls w')"
    by blast
  from inst same more have "songs w' = ?ss" "InitFrom ?ss \<in> set (calls w')"
    by auto
  with step ret length_map_filter_option [of "resolve env" refs]
    map_filter_all_None [of refs "resolve env"]
  show ?thesis by auto
qed

lemma demo_state_items:
  "getitem (demo_state p) ''volume'' = Inr (JFloat (4 / 5))"
  "getitem (demo_state p) ''playback_mode'' = Inr (JInt 1)"
  "getitem (demo_state p) ''playlist'' = Inr (JList (map JStr [''provider://X/42'', ''provider://X/43'']))"
  "getitem (demo_state p) ''song'' = Inr (JStr ''provider://X/42'')"
  "getitem (demo_state p) ''position'' = Inr (JFloat 15)"
  by (simp_all add: demo_state_def)

lemma restarted_world_file:
  "state_file restarted_world = Some playing_text"
  by (simp add: restarted_world_def)

lemma demo_json_load_playing:
  "demo_json_load playing_text = Some (demo_state playing)"
  by (simp add: demo_json_load_def)

theorem load_state_drops_unresolvable_witness:
  "\<exists>w'. load_state degraded_env restarted_world = Return w' \<and> songs w' = [42] \<and>
        InitFrom [42] \<in> set (calls w') \<and> length (songs w') = 2 - 1"
proof -
  have decoded: "json_load degraded_env playing_text = Some (demo_state playing)"
    by (simp add: degraded_env_def demo_env_def demo_json_load_playing)
  have mode: "1 \<in> set (PlaybackMode_values degraded_env)"
    by (simp add: degraded_env_def demo_env_def)
  have ref: "JStr ''provider://X/42'' = JNull \<or> is_reference (JStr ''provider://X/42'' :: rat json)"
    by (simp add: is_reference_def)
  have res: "List.map_filter (resolve degraded_env) [''provider://X/42'', ''provider://X/43''] = [42]"
    "filter (\<lambda>r. resolve degraded_env r = None) [''provider://X/42'', ''provider://X/43'']
       = [''provider://X/43'']"
    by (simp_all add: degraded_env_def demo_env_def resolve_42_only_def List.map_filter_simps)
  from load_state_drops_unresolvable [OF restarted_world_file decoded demo_state_items(1)
      demo_state_items(2) mode demo_state_items(3) demo_state_items(4) ref demo_state_items(5),
      unfolded res]
  show ?thesis
    by auto
qed

lemma reverse_all_resolvable:
  "list_all (resolvable env) ss \<Longrightarrow>
     \<exists>refs. reverse_all env ss = Inr refs \<and> List.map_filter (resolve env) refs = ss"
proof (induction ss)
  case Nil
  then show ?case by (simp add: List.map_filter_simps)
next
  case (Cons s ss)
  then obtain refs where refs: "reverse_all env ss = Inr refs"
      "List.map_filter (resolve env) refs = ss"
    by auto
  from Cons.prems obtain r where r: "reverse env s = Some r" "resolve env r = Some s"
    by (auto simp add: resolvable_def split: option.splits)
  from refs r show ?case
    by (simp add: List.map_filter_simps)
qed

lemma reverse_current_resolvable:
  assumes "case cur of None \<Rightarrow> True | Some s \<Rightarrow> resolvable env s"
  shows "(cur = None \<and> reverse_current env cur = Inr JNull) \<or>
         (\<exists>s r. cur = Some s \<and> reverse_current env cur = Inr (JStr r) \<and> resolve env r = Some s)"
  using assms
  by (cases cur) (auto simp add: reverse_current_def resolvable_def split: option.splits)

lemma state_dict_items:
  "getitem (state_dict env w sg refs) ''volume'' = Inr (volume w)"
  "getitem (state_dict env w sg refs) ''playback_mode'' = Inr (JInt (playback_mode w))"
  "getitem (state_dict env w sg refs) ''playlist'' = Inr (JList (map JStr refs))"
  "getitem (state_dict env w sg refs) ''song'' = Inr sg"
  "getitem (state_dict env w sg refs) ''position'' = Inr (position w)"
  by (simp_all add: state_dict_def)

lemma dump_state_writes:
  assumes "snapshot env w = Inr st" and "write_fault env = None"
  shows "dump_state env w =
           Return (w\<lparr>state_file := Some (json_dump env st),
                     calls := calls w @ [WriteFile (json_dump env st)]\<rparr>)"
  using assms by (simp add: dump_state_def write_state_file_def called_def)

text \<open>
  C1. In a session where every song of the playlist and the current song are resolvable
  (each reverses to a reference that resolves back to it), \<^verbatim>\<open>dump_state\<close>
  followed by \<^verbatim>\<open>load_state\<close> over the file it wrote reconstructs the session: the
  playlist is installed with the same songs in the same order (hence the same ordered
  references), volume and playback mode are restored, and the same current song is
  loaded into the player, paused at the saved position. The write is assumed to
  complete, and \<^verbatim>\<open>json.load\<close> to read back what \<^verbatim>\<open>json.dump\<close> wrote.
\<close>

theorem dump_then_load_roundtrip:
  assumes fault: "write_fault env = None"
    and mode: "playback_mode w \<in> set (PlaybackMode_values env)"
    and pl: "list_all (resolvable env) (songs w)"
    and cur: "case current_song w of None \<Rightarrow> True | Some s \<Rightarrow> resolvable env s"
    and codec: "\<forall>st. snapshot env w = Inr st \<longrightarrow> json_load env (json_dump env st) = Some st"
  shows "\<exists>w1. dump_state env w = Return w1 \<and>
           (\<forall>w0. state_file w0 = state_file w1 \<longrightarrow>
              (\<exists>w2. load_state env w0 = Return w2 \<and>
                 songs w2 = songs w \<and>
                 reverse_all env (songs w2) = reverse_all env (songs w) \<and>
                 InitFrom (songs w) \<in> set (calls w2) \<and>
                 volume w2 = volume w \<and> playback_mode w2 = playback_mode w \<and>
                 (case current_song w of
                    None \<Rightarrow> current_song w2 = current_song w0 \<and> calls w2 = calls (install_playlist env (songs w) w0)
                  | Some s \<Rightarrow> current_song w2 = Some s \<and> state w2 = paused \<and>
                      play_range w2 = position w \<and> LoadSong s \<in> set (calls w2))))"
proof -
  from reverse_all_resolvable [OF pl] obtain refs
    where refs: "reverse_all env (songs w) = Inr refs"
      and inv: "List.map_filter (resolve env) refs = songs w"
    by blast
  from reverse_current_resolvable [OF cur] obtain sg
    where sg: "reverse_current env (current_song w) = Inr sg"
      and sg_cases: "(current_song w = None \<and> sg = JNull) \<or>
         (\<exists>s r. current_song w = Some s \<and> sg = JStr r \<and> resolve env r = Some s)"
    by auto
  let ?st = "state_dict env w sg refs"
  have snap: "snapshot env w = Inr ?st"
    by (simp add: snapshot_def sg refs)
  let ?w1 = "w\<lparr>state_file := Some (json_dump env ?st),
               calls := calls w @ [WriteFile (json_dump env ?st)]\<rparr>"
  have dumped: "dump_state env w = Return ?w1"
    by (rule dump_state_writes [OF snap fault])
  have decoded: "json_load env (json_dump env ?st) = Some ?st"
    using codec snap by blast
  have loaded: "\<exists>w2. load_state env w0 = Return w2 \<and>
                 songs w2 = songs w \<and>
                 reverse_all env (songs w2) = reverse_all env (songs w) \<and>
                 InitFrom (songs w) \<in> set (calls w2) \<and>
                 volume w2 = volume w \<and> playback_mode w2 = playback_mode w \<and>
                 (case current_song w of
                    None \<Rightarrow> current_song w2 = current_song w0 \<and> calls w2 = calls (install_playlist env (songs w) w0)
                  | Some s \<Rightarrow> current_song w2 = Some s \<and> state w2 = paused \<and>
                      play_range w2 = position w \<and> LoadSong s \<in> set (calls w2))"
    if w0: "state_file w0 = state_file ?w1" for w0 :: "('a, 'b) world"
  proof -
    let ?w4 = "install_playlist env (songs w) (w0\<lparr>volume := volume w, playback_mode := playback_mode w\<rparr>)"
    have stored: "state_file w0 = Some (json_dump env ?st)"
      using w0 by simp
    have step: "load_state env w0 = load_current_song env ?st ?w4"
      using load_state_playlist [OF stored decoded state_dict_items(1) state_dict_items(2) mode
          state_dict_items(3)]
      by (simp add: inv)
    have w4: "songs ?w4 = songs w" "InitFrom (songs w) \<in> set (calls ?w4)"
      "volume ?w4 = volume w" "playback_mode ?w4 = playback_mode w"
      "current_song ?w4 = current_song w0"
      "calls ?w4 = calls (install_playlist env (songs w) w0)"
      by (simp_all add: install_playlist_def world_ops Let_def)
    from sg_cases show ?thesis
    proof (elim disjE conjE exE)
      assume none: "current_song w = None" and "sg = JNull"
      then have "load_current_song env ?st ?w4 = Return ?w4"
        by (simp add: load_current_song_null state_dict_items(4))
      with step w4 none show ?thesis
        by simp
    next
      fix s r
      assume some: "current_song w = Some s" and "sg = JStr r" and "resolve env r = Some s"
      then have "load_current_song env ?st ?w4 =
          Return (load_song s (set_play_range (position w) (pause (connect s ?w4))))"
        by (simp add: load_current_song_resolved state_dict_items(4) state_dict_items(5))
      with step w4(1-4) some show ?thesis
        by (simp add: world_ops)
    qed
  qed
  from dumped loaded show ?thesis
    by blast
qed

lemma demo_snapshot: "snapshot demo_env demo_world = Inr (demo_state playing)"
  by (simp add: snapshot_def reverse_current_def state_dict_def demo_env_def demo_world_def
      fresh_world_def demo_reverse_def demo_state_def)

lemma demo_codec_playing:
  "json_load demo_env (json_dump demo_env (demo_state playing)) = Some (demo_state playing)"
  by (simp add: demo_env_def demo_json_dump_def demo_json_load_def)

theorem dump_then_load_roundtrip_witness:
  "\<exists>w1. dump_state demo_env demo_world = Return w1 \<and> state_file w1 = Some playing_text \<and>
     (\<exists>w2. load_state demo_env restarted_world = Return w2 \<and> songs w2 = [42, 43] \<and>
        current_song w2 = Some 42 \<and> state w2 = paused \<and> play_range w2 = JFloat 15)"
proof -
  have fault: "write_fault demo_env = None"
    by (simp add: demo_env_def)
  have mode: "playback_mode demo_world \<in> set (PlaybackMode_values demo_env)"
    by (simp add: demo_env_def demo_world_def fresh_world_def)
  have pl: "list_all (resolvable demo_env) (songs demo_world)"
    by (simp add: resolvable_def demo_env_def demo_world_def fresh_world_def demo_reverse_def
        demo_resolve_def)
  have cur: "case current_song demo_world of None \<Rightarrow> True | Some s \<Rightarrow> resolvable demo_env s"
    by (simp add: resolvable_def demo_env_def demo_world_def fresh_world_def demo_reverse_def
        demo_resolve_def)
  have codec: "\<forall>st. snapshot demo_env demo_world = Inr st \<longrightarrow>
      json_load demo_env (json_dump demo_env st) = Some st"
    by (simp add: demo_snapshot demo_codec_playing)
  have written: "json_dump demo_env (demo_state playing) = playing_text"
    by (simp add: demo_env_def demo_json_dump_def)
  have dumped: "dump_state demo_env demo_world =
      Return (demo_world\<lparr>state_file := Some playing_text, calls := [WriteFile playing_text]\<rparr>)"
    using dump_state_writes [OF demo_snapshot fault]
    by (simp add: written demo_world_def fresh_world_def)
  have session: "songs demo_world = [42, 43]" "current_song demo_world = Some 42"
    "position demo_world = JFloat 15"
    by (simp_all add: demo_world_def fresh_world_def)
  from dump_then_load_roundtrip [OF fault mode pl cur codec]
  obtain w1 where w1: "dump_state demo_env demo_world = Return w1"
    and again: "\<forall>w0. state_file w0 = state_file w1 \<longrightarrow>
        (\<exists>w2. load_state demo_env w0 = Return w2 \<and> songs w2 = songs demo_world \<and>
           reverse_all demo_env (songs w2) = reverse_all demo_env (songs demo_world) \<and>
           InitFrom (songs demo_world) \<in> set (calls w2) \<and>
           volume w2 = volume demo_world \<and> playback_mode w2 = playback_mode demo_world \<and>
           (case current_song demo_world of
              None \<Rightarrow> current_song w2 = current_song w0 \<and>
                calls w2 = calls (install_playlist demo_env (songs demo_world) w0)
            | Some s \<Rightarrow> current_song w2 = Some s \<and> state w2 = paused \<and>
                play_range w2 = position demo_world \<and> LoadSong s \<in> set (calls w2)))"
    by blast
  from w1 dumped have saved: "state_file w1 = Some playing_text"
    by auto
  then have same: "state_file restarted_world = state_file w1"
    by (simp add: restarted_world_def)
  from again [rule_format, OF same] have "\<exists>w2. load_state demo_env restarted_world = Return w2 \<and> songs w2 = [42, 43] \<and>
        current_song w2 = Some 42 \<and> state w2 = paused \<and> play_range w2 = JFloat 15"
    by (auto simp add: session)
  with w1 saved show ?thesis
    by blast
qed

lemma emit_single_receiver:
  "media_about_to_changed u = [s] \<Longrightarrow>
     emit_media_about_to_changed old media u = before_media_change s old media u"
  by (simp add: emit_media_about_to_changed_def)

lemma emit_no_receiver:
  "media_about_to_changed u = [] \<Longrightarrow> emit_media_about_to_changed old media u = u"
  by (simp add: emit_media_about_to_changed_def)

text \<open>
  C5. When the current-song reference of the loaded state resolves, \<^verbatim>\<open>load_state\<close>
  connects \<^verbatim>\<open>before_media_change\<close> to \<^verbatim>\<open>media_about_to_changed\<close>, pauses the
  player, sets the play range to start at the saved position and loads the song. When
  the reference is null or does not resolve, the playlist is still installed and the
  player is left alone. The hook is one-shot: the next emission that is a real
  transition (\<^verbatim>\<open>old_media\<close> is not \<^verbatim>\<open>None\<close>, or the playlist's current song is
  not the restored one) disconnects it, clears the play range and resumes playback,
  and later emissions find no hook; the emission for the pre-loaded song itself leaves
  it armed.
\<close>

theorem load_state_preloads_current_song:
  fixes w :: "('s, 'f) world"
  assumes stored: "state_file w = Some text" and decoded: "json_load env text = Some st"
    and vol: "getitem st ''volume'' = Inr v"
    and pm: "getitem st ''playback_mode'' = Inr (JInt m)"
    and mode: "m \<in> set (PlaybackMode_values env)"
    and pl: "getitem st ''playlist'' = Inr (JList (map JStr refs))"
    and pos: "getitem st ''position'' = Inr pos"
  shows "(getitem st ''song'' = Inr (JStr r) \<and> resolve env r = Some s \<longrightarrow>
           (\<exists>w'. load_state env w = Return w' \<and>
              songs w' = List.map_filter (resolve env) refs \<and>
              current_song w' = Some s \<and> state w' = paused \<and> play_range w' = pos \<and>
              media_about_to_changed w' = media_about_to_changed w @ [s] \<and>
              calls w' = calls (install_playlist env (List.map_filter (resolve env) refs) w)
                           @ [Connect s, Pause, SetPlayRange pos, LoadSong s])) \<and>
         (getitem st ''song'' = Inr JNull \<or>
            (getitem st ''song'' = Inr (JStr r) \<and> resolve env r = None) \<longrightarrow>
           (\<exists>w'. load_state env w = Return w' \<and>
              songs w' = List.map_filter (resolve env) refs \<and>
              current_song w' = current_song w \<and> state w' = state w \<and>
              play_range w' = play_range w \<and>
              media_about_to_changed w' = media_about_to_changed w \<and>
              calls w' = calls (install_playlist env (List.map_filter (resolve env) refs) w))) \<and>
         (\<forall>(u :: ('s, 'f) world) old media. media_about_to_changed u = [s] \<and>
              (old \<noteq> None \<or> playlist_current_song u \<noteq> Some s) \<longrightarrow>
            (\<exists>u'. emit_media_about_to_changed old media u = u' \<and>
               state u' = playing \<and> play_range u' = JNull \<and> media_about_to_changed u' = [] \<and>
               calls u' = calls u @ [Disconnect s, SetPlayRange JNull, Resume] \<and>
               (\<forall>old' media'. emit_media_about_to_changed old' media' u' = u'))) \<and>
         (\<forall>(u :: ('s, 'f) world) media. media_about_to_changed u = [s] \<and> playlist_current_song u = Some s \<longrightarrow>
            emit_media_about_to_changed None media u = u)"
proof -
  let ?ss = "List.map_filter (resolve env) refs"
  let ?w4 = "install_playlist env ?ss (w\<lparr>volume := v, playback_mode := m\<rparr>)"
  have step: "load_state env w = load_current_song env st ?w4"
    by (rule load_state_playlist [OF stored decoded vol pm mode pl])
  have w4: "songs ?w4 = ?ss" "current_song ?w4 = current_song w" "state ?w4 = state w"
    "play_range ?w4 = play_range w" "media_about_to_changed ?w4 = media_about_to_changed w"
    "calls ?w4 = calls (install_playlist env ?ss w)"
    by (simp_all add: install_playlist_def world_ops Let_def)
  have resolved: "\<exists>w'. load_state env w = Return w' \<and> songs w' = ?ss \<and>
      current_song w' = Some s \<and> state w' = paused \<and> play_range w' = pos \<and>
      media_about_to_changed w' = media_about_to_changed w @ [s] \<and>
      calls w' = calls (install_playlist env ?ss w) @ [Connect s, Pause, SetPlayRange pos, LoadSong s]"
    if "getitem st ''song'' = Inr (JStr r)" and "resolve env r = Some s"
    using step w4 load_current_song_resolved [OF that pos, of ?w4]
    by (simp add: world_ops)
  have skipped: "\<exists>w'. load_state env w = Return w' \<and> songs w' = ?ss \<and>
      current_song w' = current_song w \<and> state w' = state w \<and> play_range w' = play_range w \<and>
      media_about_to_changed w' = media_about_to_changed w \<and>
      calls w' = calls (install_playlist env ?ss w)"
    if "getitem st ''song'' = Inr JNull \<or>
        (getitem st ''song'' = Inr (JStr r) \<and> resolve env r = None)"
    using that step w4 load_current_song_null [of st env ?w4]
      load_current_song_unresolved [of st r env ?w4]
    by auto
  have fires: "\<exists>u'. emit_media_about_to_changed old media u = u' \<and>
      state u' = playing \<and> play_range u' = JNull \<and> media_about_to_changed u' = [] \<and>
      calls u' = calls u @ [Disconnect s, SetPlayRange JNull, Resume] \<and>
      (\<forall>old' media'. emit_media_about_to_changed old' media' u' = u')"
    if "media_about_to_changed u = [s]" and "old \<noteq> None \<or> playlist_current_song u \<noteq> Some s"
    for u :: "('s, 'f) world" and old media
  proof -
    let ?u' = "resume (set_play_range JNull (disconnect s u))"
    have "emit_media_about_to_changed old media u = ?u'"
      using that by (auto simp add: emit_single_receiver before_media_change_def)
    moreover have none: "media_about_to_changed ?u' = []"
      using that(1) by (simp add: world_ops)
    moreover have "state ?u' = playing" "play_range ?u' = JNull"
      "calls ?u' = calls u @ [Disconnect s, SetPlayRange JNull, Resume]"
      by (simp_all add: world_ops)
    ultimately show ?thesis
      using emit_no_receiver [OF none] by simp
  qed
  have waits: "emit_media_about_to_changed None media u = u"
    if "media_about_to_changed u = [s]" and "playlist_current_song u = Some s"
    for u :: "('s, 'f) world" and media
    using that by (simp add: emit_single_receiver before_media_change_def)
  show ?thesis
  proof (intro conjI)
    show "getitem st ''song'' = Inr (JStr r) \<and> resolve env r = Some s \<longrightarrow>
      (\<exists>w'. load_state env w = Return w' \<and> songs w' = ?ss \<and>
         current_song w' = Some s \<and> state w' = paused \<and> play_range w' = pos \<and>
         media_about_to_changed w' = media_about_to_changed w @ [s] \<and>
         calls w' = calls (install_playlist env ?ss w)
                      @ [Connect s, Pause, SetPlayRange pos, LoadSong s])"
      using resolved by blast
    show "getitem st ''song'' = Inr JNull \<or>
        (getitem st ''song'' = Inr (JStr r) \<and> resolve env r = None) \<longrightarrow>
      (\<exists>w'. load_state env w = Return w' \<and> songs w' = ?ss \<and>
         current_song w' = current_song w \<and> state w' = state w \<and>
         play_range w' = play_range w \<and>
         media_about_to_changed w' = media_about_to_changed w \<and>
         calls w' = calls (install_playlist env ?ss w))"
      using skipped by blast
    show "\<forall>(u :: ('s, 'f) world) old media. media_about_to_changed u = [s] \<and>
        (old \<noteq> None \<or> playlist_current_song u \<noteq> Some s) \<longrightarrow>
      (\<exists>u'. emit_media_about_to_changed old media u = u' \<and>
         state u' = playing \<and> play_range u' = JNull \<and> media_about_to_changed u' = [] \<and>
         calls u' = calls u @ [Disconnect s, SetPlayRange JNull, Resume] \<and>
         (\<forall>old' media'. emit_media_about_to_changed old' media' u' = u'))"
      using fires by blast
    show "\<forall>(u :: ('s, 'f) world) media. media_about_to_changed u = [s] \<and> playlist_current_song u = Some s \<longrightarrow>
        emit_media_about_to_changed None media u = u"
      using waits by blast
  qed
qed

lemma empty_state_items:
  "getitem empty_state ''volume'' = Inr (JInt 100)"
  "getitem empty_state ''playback_mode'' = Inr (JInt 2)"
  "getitem empty_state ''playlist'' = Inr (JList (map JStr []))"
  "getitem empty_state ''song'' = Inr JNull"
  "getitem empty_state ''position'' = Inr JNull"
  by (simp_all add: empty_state_def)

lemma demo_json_load_empty: "demo_json_load empty_text = Some empty_state"
  by (simp add: demo_json_load_def demo_texts)

theorem load_state_preloads_current_song_witness:
  "(\<exists>w'. load_state demo_env restarted_world = Return w' \<and>
      songs w' = [42, 43] \<and> current_song w' = Some 42 \<and> state w' = paused \<and>
      play_range w' = JFloat 15 \<and> media_about_to_changed w' = [42] \<and>
      calls w' = [InitFrom [42, 43], ShowPlayerPlaylist, Connect 42, Pause,
                  SetPlayRange (JFloat 15), LoadSong 42] \<and>
      state (emit_media_about_to_changed (Some ''a.mp3'') ''b.mp3'' w') = playing) \<and>
   (\<exists>w'. load_state demo_env saved_world = Return w' \<and> songs w' = [] \<and>
      current_song w' = current_song saved_world \<and> state w' = state saved_world \<and>
      calls w' = [InitFrom []])"
proof -
  have decoded: "json_load demo_env playing_text = Some (demo_state playing)"
    by (simp add: demo_env_def demo_json_load_playing)
  have mode: "1 \<in> set (PlaybackMode_values demo_env)"
    by (simp add: demo_env_def)
  have res: "List.map_filter (resolve demo_env) [''provider://X/42'', ''provider://X/43''] = [42, 43]"
    by (simp add: demo_env_def demo_resolve_def List.map_filter_simps)
  have song: "getitem (demo_state playing) ''song'' = Inr (JStr ''provider://X/42'') \<and>
      resolve demo_env ''provider://X/42'' = Some 42"
    by (simp add: demo_state_items demo_env_def demo_resolve_def)
  have before: "media_about_to_changed restarted_world = []"
    "calls (install_playlist demo_env [42, 43] restarted_world) = [InitFrom [42, 43], ShowPlayerPlaylist]"
    by (simp_all add: restarted_world_def fresh_world_def install_playlist_def world_ops
        demo_env_def GuiMode_def Let_def)
  note resolved = load_state_preloads_current_song [OF restarted_world_file decoded
      demo_state_items(1) demo_state_items(2) mode demo_state_items(3) demo_state_items(5),
      of "''provider://X/42''" 42, unfolded res]
  from resolved [THEN conjunct1, rule_format, OF song]
  obtain w' where w': "load_state demo_env restarted_world = Return w'"
    "songs w' = [42, 43]" "current_song w' = Some 42" "state w' = paused"
    "play_range w' = JFloat 15" "media_about_to_changed w' = [42]"
    "calls w' = [InitFrom [42, 43], ShowPlayerPlaylist, Connect 42, Pause,
                 SetPlayRange (JFloat 15), LoadSong 42]"
    by (auto simp add: before)
  have real: "media_about_to_changed w' = [42] \<and>
      (Some ''a.mp3'' \<noteq> None \<or> playlist_current_song w' \<noteq> Some 42)"
    using w'(6) by simp
  from resolved [THEN conjunct2, THEN conjunct2, THEN conjunct1, rule_format, OF real]
  have "state (emit_media_about_to_changed (Some ''a.mp3'') ''b.mp3'' w') = playing"
    by auto
  with w' have first: "\<exists>w'. load_state demo_env restarted_world = Return w' \<and>
      songs w' = [42, 43] \<and> current_song w' = Some 42 \<and> state w' = paused \<and>
      play_range w' = JFloat 15 \<and> media_about_to_changed w' = [42] \<and>
      calls w' = [InitFrom [42, 43], ShowPlayerPlaylist, Connect 42, Pause,
                  SetPlayRange (JFloat 15), LoadSong 42] \<and>
      state (emit_media_about_to_changed (Some ''a.mp3'') ''b.mp3'' w') = playing"
    by blast
  have stored: "state_file saved_world = Some empty_text"
    by (simp add: saved_world_def)
  have decoded': "json_load demo_env empty_text = Some empty_state"
    by (simp add: demo_env_def demo_json_load_empty)
  have mode': "2 \<in> set (PlaybackMode_values demo_env)"
    by (simp add: demo_env_def)
  have res': "List.map_filter (resolve demo_env) [] = []"
    by (simp add: List.map_filter_simps)
  have null: "getitem empty_state ''song'' = Inr JNull \<or>
      (getitem empty_state ''song'' = Inr (JStr []) \<and> resolve demo_env [] = None)"
    by (simp add: empty_state_items)
  have before': "calls (install_playlist demo_env [] saved_world) = [InitFrom []]"
    by (simp add: saved_world_def demo_world_def fresh_world_def install_playlist_def world_ops
        Let_def)
  from load_state_preloads_current_song [OF stored decoded' empty_state_items(1)
      empty_state_items(2) mode' empty_state_items(3) empty_state_items(5),
      of "[]" 0, unfolded res', THEN conjunct2, THEN conjunct1, rule_format, OF null]
  have second: "\<exists>w'. load_state demo_env saved_world = Return w' \<and> songs w' = [] \<and>
      current_song w' = current_song saved_world \<and> state w' = state saved_world \<and>
      calls w' = [InitFrom []]"
    by (auto simp add: before')
  from first second show ?thesis
    by blast
qed

section \<open>Writing the state file\<close>

lemma demo_snapshot_saved: "snapshot disk_full_env saved_world = Inr (demo_state playing)"
  by (simp add: snapshot_def reverse_current_def state_dict_def disk_full_env_def demo_env_def
      saved_world_def demo_world_def fresh_world_def demo_reverse_def demo_state_def)

lemma take_playing_text: "take 5 playing_text = cut_text"
  by (simp add: demo_texts)

text \<open>
  C3 fails as stated: with a disk that fails after five characters, the state file that
  held an earlier snapshot is left holding the first five characters of the new one,
  and the next \<^verbatim>\<open>load_state\<close> finds a file that does not decode.
\<close>

theorem dump_state_partial_write_counterexample:
  "dump_state disk_full_env saved_world =
     Raise OSError (saved_world\<lparr>state_file := Some cut_text, calls := [WriteFile cut_text]\<rparr>) \<and>
   state_file saved_world = Some empty_text \<and> cut_text \<noteq> empty_text \<and> cut_text \<noteq> playing_text \<and>
   load_state disk_full_env (saved_world\<lparr>state_file := Some cut_text, calls := [WriteFile cut_text]\<rparr>) =
     Return (saved_world\<lparr>state_file := Some cut_text,
               calls := [WriteFile cut_text, LogException ''invalid state file'']\<rparr>)"
proof -
  have "json_dump disk_full_env (demo_state playing) = playing_text"
    by (simp add: disk_full_env_def demo_env_def demo_json_dump_def)
  moreover have "write_fault disk_full_env = Some 5" "5 < length playing_text"
    by (simp_all add: disk_full_env_def playing_text_def)
  moreover have "calls saved_world = []" "state_file saved_world = Some empty_text"
    by (simp_all add: saved_world_def demo_world_def fresh_world_def)
  moreover have "json_load disk_full_env cut_text = None"
    by (simp add: disk_full_env_def demo_env_def demo_json_load_def demo_texts)
  moreover have "cut_text \<noteq> empty_text" "cut_text \<noteq> playing_text"
    by (simp_all add: demo_texts)
  ultimately show ?thesis
    by (simp add: dump_state_def demo_snapshot_saved write_state_file_def take_playing_text
        load_state_def world_ops)
qed

text \<open>
  C3, amended. \<^verbatim>\<open>dump_state\<close> rewrites the state file in place: it truncates the
  file and writes the new snapshot into it, with no temporary file and no rename. When
  the write completes, the file holds exactly the new snapshot. When the write fails
  after \<open>k\<close> characters, \<^verbatim>\<open>dump_state\<close> raises and the file holds the first \<open>k\<close>
  characters of the new snapshot, whatever it held before; the next \<^verbatim>\<open>load_state\<close>
  reads that prefix, and where it does not decode, logs it and starts fresh.
\<close>

theorem dump_state_rewrites_in_place:
  assumes snap: "snapshot env w = Inr st"
  shows "(write_fault env = None \<or> (\<exists>k. write_fault env = Some k \<and> length (json_dump env st) \<le> k) \<longrightarrow>
           dump_state env w =
             Return (w\<lparr>state_file := Some (json_dump env st),
                       calls := calls w @ [WriteFile (json_dump env st)]\<rparr>)) \<and>
         (\<forall>k. write_fault env = Some k \<and> k < length (json_dump env st) \<longrightarrow>
           (\<exists>w'. dump_state env w = Raise OSError w' \<and>
              w' = w\<lparr>state_file := Some (take k (json_dump env st)),
                     calls := calls w @ [WriteFile (take k (json_dump env st))]\<rparr> \<and>
              (json_load env (take k (json_dump env st)) = None \<longrightarrow>
                 load_state env w' =
                   Return (w'\<lparr>calls := calls w' @ [LogException ''invalid state file'']\<rparr>))))"
  using snap
  by (auto simp add: dump_state_def write_state_file_def load_state_def world_ops)

theorem dump_state_rewrites_in_place_witness:
  "(\<exists>w'. dump_state disk_full_env saved_world = Raise OSError w' \<and>
      state_file w' = Some cut_text \<and>
      load_state disk_full_env w' =
        Return (w'\<lparr>calls := calls w' @ [LogException ''invalid state file'']\<rparr>)) \<and>
   dump_state demo_env demo_world =
     Return (demo_world\<lparr>state_file := Some playing_text, calls := [WriteFile playing_text]\<rparr>)"
proof -
  have written: "json_dump disk_full_env (demo_state playing) = playing_text"
    "json_dump demo_env (demo_state playing) = playing_text"
    by (simp_all add: disk_full_env_def demo_env_def demo_json_dump_def)
  have fault: "write_fault disk_full_env = Some 5 \<and> 5 < length (json_dump disk_full_env (demo_state playing))"
    by (simp add: written) (simp add: disk_full_env_def playing_text_def)
  have undecoded: "json_load disk_full_env (take 5 (json_dump disk_full_env (demo_state playing))) = None"
    by (simp add: written take_playing_text)
      (simp add: disk_full_env_def demo_env_def demo_json_load_def demo_texts)
  from dump_state_rewrites_in_place [OF demo_snapshot_saved, THEN conjunct2, rule_format, OF fault]
    undecoded
  have cut: "\<exists>w'. dump_state disk_full_env saved_world = Raise OSError w' \<and>
      state_file w' = Some cut_text \<and>
      load_state disk_full_env w' =
        Return (w'\<lparr>calls := calls w' @ [LogException ''invalid state file'']\<rparr>)"
    by (auto simp add: written take_playing_text)
  have whole: "write_fault demo_env = None \<or>
      (\<exists>k. write_fault demo_env = Some k \<and> length (json_dump demo_env (demo_state playing)) \<le> k)"
    by (simp add: demo_env_def)
  have "calls demo_world = []"
    by (simp add: demo_world_def fresh_world_def)
  with dump_state_rewrites_in_place [OF demo_snapshot, THEN conjunct1, rule_format, OF whole]
  have "dump_state demo_env demo_world =
     Return (demo_world\<lparr>state_file := Some playing_text, calls := [WriteFile playing_text]\<rparr>)"
    by (simp add: written)
  with cut show ?thesis
    by blast
qed

text \<open>
  C10 fails as stated: in a session whose playlist holds a song that cannot be
  reversed, \<^verbatim>\<open>dump_state\<close> raises before it opens the file, and the file keeps what
  the earlier run saved.
\<close>

theorem dump_state_unreversible_counterexample:
  "dump_state demo_env unreversible_world = Raise NotReversible unreversible_world \<and>
   state_file unreversible_world = Some empty_text \<and> songs unreversible_world = [42, 7]"
  by (simp add: dump_state_def snapshot_def reverse_current_def demo_env_def
      unreversible_world_def saved_world_def demo_world_def fresh_world_def demo_reverse_def)

text \<open>
  C10, amended. Whenever every song of the session can be reversed and the write
  completes, \<^verbatim>\<open>dump_state\<close> overwrites the state file with the new record, whatever
  the file held and whatever the session holds: there is no check for an empty
  session. With no current song and an empty playlist nothing has to be reversed, and
  the record written has \<^verbatim>\<open>song\<close> null and \<^verbatim>\<open>playlist\<close> the empty array, so a short
  empty run erases the saved session. When a song cannot be reversed, \<^verbatim>\<open>dump_state\<close>
  raises and the file is not touched.
\<close>

theorem dump_state_overwrites:
  "(snapshot env w = Inr st \<and> write_fault env = None \<longrightarrow>
      dump_state env w =
        Return (w\<lparr>state_file := Some (json_dump env st),
                  calls := calls w @ [WriteFile (json_dump env st)]\<rparr>)) \<and>
   (current_song w = None \<and> songs w = [] \<longrightarrow>
      snapshot env w =
        Inr (JDict [(''playback_mode'', JInt (playback_mode w)),
                    (''volume'', volume w),
                    (''state'', JInt (State_value env (state w))),
                    (''song'', JNull),
                    (''position'', position w),
                    (''playlist'', JList [])])) \<and>
   (snapshot env w = Inl e \<longrightarrow> dump_state env w = Raise e w)"
  by (simp add: dump_state_def write_state_file_def snapshot_def reverse_current_def
      state_dict_def world_ops)

theorem dump_state_overwrites_witness:
  "snapshot demo_env restarted_world = Inr empty_state \<and>
   state_file restarted_world = Some playing_text \<and>
   dump_state demo_env restarted_world =
     Return (restarted_world\<lparr>state_file := Some empty_text, calls := [WriteFile empty_text]\<rparr>) \<and>
   dump_state demo_env unreversible_world = Raise NotReversible unreversible_world"
proof -
  have session: "current_song restarted_world = None \<and> songs restarted_world = []"
    "calls restarted_world = []" "state_file restarted_world = Some playing_text"
    by (simp_all add: restarted_world_def fresh_world_def)
  have fields: "playback_mode restarted_world = 2" "volume restarted_world = JInt 100"
    "State_value demo_env (state restarted_world) = 0" "position restarted_world = JNull"
    by (simp_all add: restarted_world_def fresh_world_def demo_env_def)
  from dump_state_overwrites [where env = demo_env and w = restarted_world, THEN conjunct2, THEN conjunct1,
      rule_format, OF session(1)]
  have snap: "snapshot demo_env restarted_world = Inr empty_state"
    by (simp add: fields empty_state_def)
  have written: "json_dump demo_env empty_state = empty_text"
    by (simp add: demo_env_def demo_json_dump_def demo_state_def empty_state_def)
  have "write_fault demo_env = None"
    by (simp add: demo_env_def)
  with snap have "snapshot demo_env restarted_world = Inr empty_state \<and> write_fault demo_env = None"
    by (rule conjI)
  from dump_state_overwrites [THEN conjunct1, rule_format, OF this]
  have dumped: "dump_state demo_env restarted_world =
     Return (restarted_world\<lparr>state_file := Some empty_text, calls := [WriteFile empty_text]\<rparr>)"
    by (simp add: written session)
  have "snapshot demo_env unreversible_world = Inl NotReversible"
    by (simp add: snapshot_def reverse_current_def demo_env_def unreversible_world_def
        saved_world_def demo_world_def fresh_world_def demo_reverse_def)
  from dump_state_overwrites [THEN conjunct2, THEN conjunct2, rule_format, OF this]
  have "dump_state demo_env unreversible_world = Raise NotReversible unreversible_world" .
  with snap dumped session show ?thesis
    by simp
qed

text \<open>
  C8 fails as stated: the record that \<^verbatim>\<open>dump_state\<close> builds for the session playing
  song 42 has a sixth key, \<^verbatim>\<open>state\<close>.
\<close>

theorem dump_state_keys_counterexample:
  "snapshot demo_env demo_world =
     Inr (JDict [(''playback_mode'', JInt 1),
                 (''volume'', JFloat (4 / 5)),
                 (''state'', JInt 2),
                 (''song'', JStr ''provider://X/42''),
                 (''position'', JFloat 15),
                 (''playlist'', JList [JStr ''provider://X/42'', JStr ''provider://X/43''])]) \<and>
   keys (demo_state playing) \<noteq> [''volume'', ''playback_mode'', ''song'', ''position'', ''playlist''] \<and>
   set (keys (demo_state playing)) \<noteq> {''volume'', ''playback_mode'', ''song'', ''position'', ''playlist''}"
proof -
  have "''state'' \<in> set (keys (demo_state playing))"
    by (simp add: keys_def demo_state_def)
  moreover have "''state'' \<notin> {''volume'', ''playback_mode'', ''song'', ''position'', ''playlist''}"
    by simp
  ultimately have "set (keys (demo_state playing)) \<noteq>
      {''volume'', ''playback_mode'', ''song'', ''position'', ''playlist''}"
    by metis
  moreover have "keys (demo_state playing) \<noteq> [''volume'', ''playback_mode'', ''song'', ''position'', ''playlist'']"
    by (simp add: keys_def demo_state_def)
  moreover have "snapshot demo_env demo_world =
     Inr (JDict [(''playback_mode'', JInt 1),
                 (''volume'', JFloat (4 / 5)),
                 (''state'', JInt 2),
                 (''song'', JStr ''provider://X/42''),
                 (''position'', JFloat 15),
                 (''playlist'', JList [JStr ''provider://X/42'', JStr ''provider://X/43''])])"
    by (simp add: demo_snapshot demo_state_def)
  ultimately show ?thesis
    by blast
qed

lemma reverse_all_length: "reverse_all env ss = Inr refs \<Longrightarrow> length refs = length ss"
  by (induction ss arbitrary: refs) (auto split: option.splits sum.splits)

text \<open>
  C8, amended. The record that \<^verbatim>\<open>dump_state\<close> persists has exactly six keys:
  \<^verbatim>\<open>playback_mode\<close> (the integer ordinal of the playlist's mode), \<^verbatim>\<open>volume\<close> (the
  player's volume), \<^verbatim>\<open>state\<close> (the integer ordinal of the player's state),
  \<^verbatim>\<open>song\<close> (a reference string or null), \<^verbatim>\<open>position\<close> (the player's position) and
  \<^verbatim>\<open>playlist\<close> (an array with one reference string for each song of the playlist).
\<close>

theorem dump_state_record_keys:
  assumes snap: "snapshot env w = Inr st"
  shows "keys st = [''playback_mode'', ''volume'', ''state'', ''song'', ''position'', ''playlist''] \<and>
         getitem st ''playback_mode'' = Inr (JInt (playback_mode w)) \<and>
         getitem st ''volume'' = Inr (volume w) \<and>
         getitem st ''state'' = Inr (JInt (State_value env (state w))) \<and>
         (\<exists>sg. getitem st ''song'' = Inr sg \<and> (sg = JNull \<or> is_reference sg)) \<and>
         getitem st ''position'' = Inr (position w) \<and>
         (\<exists>refs. getitem st ''playlist'' = Inr (JList (map JStr refs)) \<and>
            length refs = length (songs w)) \<and>
         (\<forall>w'. dump_state env w = Return w' \<longrightarrow> state_file w' = Some (json_dump env st))"
proof -
  from snap obtain sg refs where parts: "reverse_current env (current_song w) = Inr sg"
      "reverse_all env (songs w) = Inr refs" and st: "st = state_dict env w sg refs"
    by (auto simp add: snapshot_def split: sum.splits)
  from parts(1) have "sg = JNull \<or> is_reference sg"
    by (auto simp add: reverse_current_def is_reference_def split: option.splits)
  moreover note reverse_all_length [OF parts(2)]
  moreover have "\<forall>w'. dump_state env w = Return w' \<longrightarrow> state_file w' = Some (json_dump env st)"
    using snap
    by (auto simp add: dump_state_def write_state_file_def world_ops split: option.splits if_splits)
  ultimately show ?thesis
    by (auto simp add: st state_dict_def keys_def)
qed

theorem dump_state_record_keys_witness:
  "keys (demo_state playing) = [''playback_mode'', ''volume'', ''state'', ''song'', ''position'', ''playlist''] \<and>
   getitem (demo_state playing) ''state'' = Inr (JInt 2) \<and>
   getitem (demo_state playing) ''volume'' = Inr (JFloat (4 / 5))"
  using dump_state_record_keys [OF demo_snapshot]
  by (simp add: demo_env_def demo_world_def fresh_world_def)

section \<open>Shutting down\<close>

lemma emit_append: "emit (earlier @ later) w = emit later (emit earlier w)"
  by (induction earlier arbitrary: w) simp_all

lemma shutdown_app_calls:
  "calls (shutdown_app receivers w) = calls (emit receivers w) @ [Stop, Shutdown, TeardownAioSupport]"
  by (simp add: shutdown_app_def world_ops)

lemma shutdown_app_state: "state (shutdown_app receivers w) = stopped"
  by (simp add: shutdown_app_def world_ops)

lemma receive_dump_state_failed:
  "snapshot env w = Inl e \<Longrightarrow> receive (dump_state env) w = called (LogReceiverError e) w"
  by (simp add: receive_def dump_state_def)

lemma receive_dump_state_written:
  "snapshot env w = Inr st \<Longrightarrow> write_fault env = None \<Longrightarrow>
     receive (dump_state env) w =
       w\<lparr>state_file := Some (json_dump env st), calls := calls w @ [WriteFile (json_dump env st)]\<rparr>"
  by (simp add: receive_def dump_state_def write_state_file_def world_ops)

lemma emit_failing:
  "f (emit earlier w) = Raise e w' \<Longrightarrow>
     emit (earlier @ f # later) w = emit later (called (LogReceiverError e) w')"
  by (simp add: emit_append receive_def)

lemma shutdown_app_dump_only:
  "snapshot env w = Inr st \<Longrightarrow> write_fault env = None \<Longrightarrow>
     shutdown_app (about_to_shutdown env []) w =
       teardown_aio_support (shutdown (stop
         (w\<lparr>state_file := Some (json_dump env st),
             calls := calls w @ [WriteFile (json_dump env st)]\<rparr>)))"
  by (simp add: shutdown_app_def about_to_shutdown_def receive_dump_state_written)

lemma unreversible_snapshot: "snapshot demo_env unreversible_world = Inl NotReversible"
  by (simp add: snapshot_def reverse_current_def demo_env_def unreversible_world_def
      saved_world_def demo_world_def fresh_world_def demo_reverse_def)

lemma unreversible_calls: "calls unreversible_world = []"
  by (simp add: unreversible_world_def saved_world_def demo_world_def fresh_world_def)

text \<open>
  C6. During shutdown, a failure raised by one receiver of \<^verbatim>\<open>about_to_shutdown\<close>
  (for example \<^verbatim>\<open>dump_state\<close>, when \<^verbatim>\<open>reverse\<close> fails on a song) is caught and
  logged on its own: the receivers connected before it have run, the receivers
  connected after it run from the world it left behind, and \<^verbatim>\<open>_shutdown_app\<close> then
  stops the player, releases it and tears down the async support, in this order.
\<close>

theorem shutdown_app_survives_failure:
  "(f (emit earlier w) = Raise e w' \<longrightarrow>
      emit (earlier @ f # later) w = emit later (called (LogReceiverError e) w') \<and>
      shutdown_app (earlier @ f # later) w =
        teardown_aio_support (shutdown (stop (emit later (called (LogReceiverError e) w'))))) \<and>
   (snapshot env w = Inl e \<longrightarrow>
      shutdown_app (about_to_shutdown env others) w =
        teardown_aio_support (shutdown (stop (emit others (called (LogReceiverError e) w))))) \<and>
   state (shutdown_app receivers w) = stopped \<and>
   calls (shutdown_app receivers w) = calls (emit receivers w) @ [Stop, Shutdown, TeardownAioSupport]"
proof (intro conjI impI)
  assume failing: "f (emit earlier w) = Raise e w'"
  then have caught: "emit (earlier @ f # later) w = emit later (called (LogReceiverError e) w')"
    by (rule emit_failing)
  then show "emit (earlier @ f # later) w = emit later (called (LogReceiverError e) w')" .
  from caught
  show "shutdown_app (earlier @ f # later) w =
      teardown_aio_support (shutdown (stop (emit later (called (LogReceiverError e) w'))))"
    by (simp add: shutdown_app_def)
next
  assume "snapshot env w = Inl e"
  then show "shutdown_app (about_to_shutdown env others) w =
      teardown_aio_support (shutdown (stop (emit others (called (LogReceiverError e) w))))"
    by (simp add: shutdown_app_def about_to_shutdown_def receive_dump_state_failed)
next
  show "state (shutdown_app receivers w) = stopped"
    by (rule shutdown_app_state)
  show "calls (shutdown_app receivers w) =
      calls (emit receivers w) @ [Stop, Shutdown, TeardownAioSupport]"
    by (rule shutdown_app_calls)
qed

theorem shutdown_app_survives_failure_witness:
  "shutdown_app ([plugin_receiver] @ dump_state demo_env # [plugin_receiver]) unreversible_world =
     unreversible_world\<lparr>state := stopped,
       calls := [ShowMsg ''plugin: bye'', LogReceiverError NotReversible, ShowMsg ''plugin: bye'',
                 Stop, Shutdown, TeardownAioSupport]\<rparr> \<and>
   shutdown_app (about_to_shutdown demo_env [plugin_receiver]) unreversible_world =
     unreversible_world\<lparr>state := stopped,
       calls := [LogReceiverError NotReversible, ShowMsg ''plugin: bye'',
                 Stop, Shutdown, TeardownAioSupport]\<rparr>"
proof -
  let ?w1 = "unreversible_world\<lparr>calls := [ShowMsg ''plugin: bye'']\<rparr>"
  have plugin: "emit [plugin_receiver] unreversible_world = ?w1"
    by (simp add: receive_def plugin_receiver_def world_ops unreversible_calls)
  have "snapshot demo_env ?w1 = Inl NotReversible"
    using unreversible_snapshot by (auto simp add: snapshot_def split: sum.splits)
  then have "dump_state demo_env ?w1 = Raise NotReversible ?w1"
    by (simp add: dump_state_def)
  with plugin
  have failing: "dump_state demo_env (emit [plugin_receiver] unreversible_world) = Raise NotReversible ?w1"
    by simp
  note a = shutdown_app_survives_failure [where f = "dump_state demo_env"
      and earlier = "[plugin_receiver]" and later = "[plugin_receiver]",
      THEN conjunct1, rule_format, OF failing, THEN conjunct2]
  note b = shutdown_app_survives_failure [where others = "[plugin_receiver]",
      THEN conjunct2, THEN conjunct1, rule_format, OF unreversible_snapshot]
  from a b show ?thesis
    by (simp add: receive_def plugin_receiver_def world_ops unreversible_calls)
qed

lemma demo_shutdown_once:
  "shutdown_app (about_to_shutdown demo_env []) demo_world = shut_down_world"
proof -
  have "json_dump demo_env (demo_state playing) = playing_text"
    by (simp add: demo_env_def demo_json_dump_def)
  moreover have "write_fault demo_env = None"
    by (simp add: demo_env_def)
  moreover have "calls demo_world = []"
    by (simp add: demo_world_def fresh_world_def)
  ultimately show ?thesis
    by (simp add: shutdown_app_def about_to_shutdown_def
        receive_dump_state_written [OF demo_snapshot] world_ops shut_down_world_def)
qed

lemma shut_down_snapshot: "snapshot demo_env shut_down_world = Inr (demo_state stopped)"
  by (simp add: snapshot_def reverse_current_def state_dict_def demo_env_def
      shut_down_world_def demo_world_def fresh_world_def demo_reverse_def demo_state_def)

text \<open>
  C7 fails as stated: shutting down the session playing song 42 twice writes the state
  file twice and stops the player twice.
\<close>

theorem shutdown_app_twice_counterexample:
  "calls (shutdown_app (about_to_shutdown demo_env []) demo_world) =
     [WriteFile playing_text, Stop, Shutdown, TeardownAioSupport] \<and>
   calls (shutdown_app (about_to_shutdown demo_env [])
            (shutdown_app (about_to_shutdown demo_env []) demo_world)) =
     [WriteFile playing_text, Stop, Shutdown, TeardownAioSupport,
      WriteFile stopped_text, Stop, Shutdown, TeardownAioSupport] \<and>
   state_file (shutdown_app (about_to_shutdown demo_env [])
                 (shutdown_app (about_to_shutdown demo_env []) demo_world)) =
     Some stopped_text"
proof -
  have written: "json_dump demo_env (demo_state stopped) = stopped_text"
    by (simp add: demo_env_def demo_json_dump_def demo_state_def)
  have nofault: "write_fault demo_env = None"
    by (simp add: demo_env_def)
  have once: "calls shut_down_world = [WriteFile playing_text, Stop, Shutdown, TeardownAioSupport]"
    by (simp add: shut_down_world_def)
  have "shutdown_app (about_to_shutdown demo_env []) shut_down_world =
      teardown_aio_support (shutdown (stop
        (shut_down_world\<lparr>state_file := Some stopped_text,
           calls := calls shut_down_world @ [WriteFile stopped_text]\<rparr>)))"
    using shutdown_app_dump_only [OF shut_down_snapshot nofault] by (simp add: written)
  then show ?thesis
    by (simp add: demo_shutdown_once once world_ops)
qed

text \<open>
  C7, amended. \<^verbatim>\<open>_shutdown_app\<close> keeps no record of having run. Every call, the
  first like any later one and whatever receivers are connected, emits
  \<^verbatim>\<open>about_to_shutdown\<close> and then calls \<^verbatim>\<open>player.stop()\<close>,
  \<^verbatim>\<open>player.shutdown()\<close> and \<^verbatim>\<open>Signal.teardown_aio_support()\<close>. The emission runs
  \<^verbatim>\<open>dump_state\<close> every time: it writes the state file again whenever every song
  reverses and the write completes, and its failure is logged otherwise. A second
  call therefore stops the player a second time and, after a first call with no
  other receiver, dumps the state a second time.
\<close>

theorem shutdown_app_repeats:
  "calls (shutdown_app (about_to_shutdown env others) w) =
     calls (emit others (receive (dump_state env) w)) @ [Stop, Shutdown, TeardownAioSupport] \<and>
   state (shutdown_app (about_to_shutdown env others) w) = stopped \<and>
   (snapshot env w = Inl e \<longrightarrow>
      receive (dump_state env) w = w\<lparr>calls := calls w @ [LogReceiverError e]\<rparr>) \<and>
   (snapshot env w = Inr st \<and> write_fault env = None \<longrightarrow>
      receive (dump_state env) w =
        w\<lparr>state_file := Some (json_dump env st), calls := calls w @ [WriteFile (json_dump env st)]\<rparr> \<and>
      (\<exists>w1 st1. shutdown_app (about_to_shutdown env []) w = w1 \<and>
         calls w1 = calls w @ [WriteFile (json_dump env st), Stop, Shutdown, TeardownAioSupport] \<and>
         snapshot env w1 = Inr st1 \<and>
         state_file (shutdown_app (about_to_shutdown env []) w1) = Some (json_dump env st1) \<and>
         calls (shutdown_app (about_to_shutdown env []) w1) =
           calls w1 @ [WriteFile (json_dump env st1), Stop, Shutdown, TeardownAioSupport]))"
proof -
  have again: "\<exists>w1 st1. shutdown_app (about_to_shutdown env []) w = w1 \<and>
         calls w1 = calls w @ [WriteFile (json_dump env st), Stop, Shutdown, TeardownAioSupport] \<and>
         snapshot env w1 = Inr st1 \<and>
         state_file (shutdown_app (about_to_shutdown env []) w1) = Some (json_dump env st1) \<and>
         calls (shutdown_app (about_to_shutdown env []) w1) =
           calls w1 @ [WriteFile (json_dump env st1), Stop, Shutdown, TeardownAioSupport]"
    if snap: "snapshot env w = Inr st" and nofault: "write_fault env = None"
  proof -
    let ?w1 = "shutdown_app (about_to_shutdown env []) w"
    have w1: "?w1 = teardown_aio_support (shutdown (stop
        (w\<lparr>state_file := Some (json_dump env st), calls := calls w @ [WriteFile (json_dump env st)]\<rparr>)))"
      by (rule shutdown_app_dump_only [OF snap nofault])
    from snap obtain st1 where snap1: "snapshot env ?w1 = Inr st1"
      by (auto simp add: w1 snapshot_def world_ops split: sum.splits)
    have "shutdown_app (about_to_shutdown env []) ?w1 =
        teardown_aio_support (shutdown (stop
          (?w1\<lparr>state_file := Some (json_dump env st1),
             calls := calls ?w1 @ [WriteFile (json_dump env st1)]\<rparr>)))"
      by (rule shutdown_app_dump_only [OF snap1 nofault])
    then have "state_file (shutdown_app (about_to_shutdown env []) ?w1) = Some (json_dump env st1)"
      "calls (shutdown_app (about_to_shutdown env []) ?w1) =
         calls ?w1 @ [WriteFile (json_dump env st1), Stop, Shutdown, TeardownAioSupport]"
      by (simp_all add: world_ops)
    moreover have "calls ?w1 = calls w @ [WriteFile (json_dump env st), Stop, Shutdown, TeardownAioSupport]"
      by (simp add: w1 world_ops)
    ultimately show ?thesis
      using snap1 by blast
  qed
  have "calls (shutdown_app (about_to_shutdown env others) w) =
     calls (emit others (receive (dump_state env) w)) @ [Stop, Shutdown, TeardownAioSupport]"
    by (simp add: shutdown_app_calls about_to_shutdown_def)
  moreover have "state (shutdown_app (about_to_shutdown env others) w) = stopped"
    by (rule shutdown_app_state)
  moreover have "snapshot env w = Inl e \<longrightarrow>
      receive (dump_state env) w = w\<lparr>calls := calls w @ [LogReceiverError e]\<rparr>"
    by (simp add: receive_dump_state_failed called_def)
  moreover have "snapshot env w = Inr st \<and> write_fault env = None \<longrightarrow>
      receive (dump_state env) w =
        w\<lparr>state_file := Some (json_dump env st), calls := calls w @ [WriteFile (json_dump env st)]\<rparr>"
    by (simp add: receive_dump_state_written)
  ultimately show ?thesis
    using again by blast
qed

theorem shutdown_app_repeats_witness:
  "calls (shutdown_app (about_to_shutdown demo_env [plugin_receiver]) shut_down_world) =
     [WriteFile playing_text, Stop, Shutdown, TeardownAioSupport,
      WriteFile stopped_text, ShowMsg ''plugin: bye'', Stop, Shutdown, TeardownAioSupport] \<and>
   calls (shutdown_app (about_to_shutdown demo_env []) unreversible_world) =
     [LogReceiverError NotReversible, Stop, Shutdown, TeardownAioSupport] \<and>
   (\<exists>st1. snapshot demo_env shut_down_world = Inr st1 \<and>
      calls (shutdown_app (about_to_shutdown demo_env []) shut_down_world) =
        [WriteFile playing_text, Stop, Shutdown, TeardownAioSupport,
         WriteFile (json_dump demo_env st1), Stop, Shutdown, TeardownAioSupport])"
proof -
  have nofault: "write_fault demo_env = None"
    by (simp add: demo_env_def)
  have written: "json_dump demo_env (demo_state stopped) = stopped_text"
    "json_dump demo_env (demo_state playing) = playing_text"
    by (simp_all add: demo_env_def demo_json_dump_def demo_state_def)
  have once: "calls shut_down_world = [WriteFile playing_text, Stop, Shutdown, TeardownAioSupport]"
    by (simp add: shut_down_world_def)
  have stopped_ok: "snapshot demo_env shut_down_world = Inr (demo_state stopped) \<and> write_fault demo_env = None"
    using shut_down_snapshot nofault by (rule conjI)
  have playing_ok: "snapshot demo_env demo_world = Inr (demo_state playing) \<and> write_fault demo_env = None"
    using demo_snapshot nofault by (rule conjI)
  note t = shutdown_app_repeats [where env = demo_env]
  note dumped = t [where w = shut_down_world, THEN conjunct2, THEN conjunct2, THEN conjunct2,
      rule_format, OF stopped_ok, THEN conjunct1]
  from t [where w = shut_down_world and others = "[plugin_receiver]", THEN conjunct1] dumped
  have first: "calls (shutdown_app (about_to_shutdown demo_env [plugin_receiver]) shut_down_world) =
     [WriteFile playing_text, Stop, Shutdown, TeardownAioSupport,
      WriteFile stopped_text, ShowMsg ''plugin: bye'', Stop, Shutdown, TeardownAioSupport]"
    by (simp add: receive_def plugin_receiver_def world_ops written once)
  note failed = t [where w = unreversible_world, THEN conjunct2, THEN conjunct2, THEN conjunct1,
      rule_format, OF unreversible_snapshot]
  from t [where w = unreversible_world and others = "[]", THEN conjunct1] failed
  have second: "calls (shutdown_app (about_to_shutdown demo_env []) unreversible_world) =
     [LogReceiverError NotReversible, Stop, Shutdown, TeardownAioSupport]"
    by (simp add: unreversible_calls)
  from t [where w = demo_world, THEN conjunct2, THEN conjunct2, THEN conjunct2,
      rule_format, OF playing_ok, THEN conjunct2]
  have third: "\<exists>st1. snapshot demo_env shut_down_world = Inr st1 \<and>
      calls (shutdown_app (about_to_shutdown demo_env []) shut_down_world) =
        [WriteFile playing_text, Stop, Shutdown, TeardownAioSupport,
         WriteFile (json_dump demo_env st1), Stop, Shutdown, TeardownAioSupport]"
    by (auto simp add: demo_shutdown_once once)
  from first second third show ?thesis
    by blast
qed

section \<open>Actions\<close>

text \<open>
  C9 fails as stated: a block interrupted from the keyboard raises an exception that is
  not an \<^verbatim>\<open>Exception\<close>; it passes both \<^verbatim>\<open>except\<close> clauses, so after the start
  report nothing is reported, neither "...error" nor anything else.
\<close>

theorem create_action_interrupt_counterexample:
  "create_action ''Fetching'' interrupted_block fresh_world =
     Raise (BaseException ''KeyboardInterrupt'') (fresh_world\<lparr>calls := [ShowMsg ''Fetching...'']\<rparr>)"
  by (simp add: create_action_def interrupted_block_def show_msg_def called_def fresh_world_def)

text \<open>
  C9, amended. \<^verbatim>\<open>create_action\<close> reports the start on entry and then has four
  outcomes. Calling the action's \<^verbatim>\<open>failed(message)\<close> ends the operation with a
  "...failed" report and nothing propagates. Any other exception that is an instance
  of \<^verbatim>\<open>Exception\<close> is reported as "...error" and re-raised to the caller. A block
  that completes is reported as "...done". An exception that is not an instance of
  \<^verbatim>\<open>Exception\<close> (KeyboardInterrupt, SystemExit) propagates to the caller with no
  report after the start report.
\<close>

theorem create_action_outcomes:
  "(block (show_msg (s @ ''...'') w) = Raise (ActionError m) w' \<longrightarrow>
      create_action s block w = Return (show_msg (s @ ''...failed'' @ [CHR 0x09] @ m) w')) \<and>
   (block (show_msg (s @ ''...'') w) = Raise (Exception m) w' \<longrightarrow>
      create_action s block w = Raise (Exception m) (show_msg (s @ ''...error'' @ [CHR 0x09] @ m) w')) \<and>
   (block (show_msg (s @ ''...'') w) = Return w' \<longrightarrow>
      create_action s block w = Return (show_msg (s @ ''...done'') w')) \<and>
   (block (show_msg (s @ ''...'') w) = Raise (BaseException m) w' \<longrightarrow>
      create_action s block w = Raise (BaseException m) w') \<and>
   ((\<forall>u. \<exists>cs. calls (world_of (block u)) = calls u @ cs) \<longrightarrow>
      (\<exists>cs. calls (world_of (create_action s block w)) = calls w @ ShowMsg (s @ ''...'') # cs))"
proof -
  have "\<exists>cs. calls (world_of (create_action s block w)) = calls w @ ShowMsg (s @ ''...'') # cs"
    if "\<forall>u. \<exists>cs. calls (world_of (block u)) = calls u @ cs"
  proof -
    from that obtain cs
      where "calls (world_of (block (show_msg (s @ ''...'') w))) = calls (show_msg (s @ ''...'') w) @ cs"
      by blast
    then show ?thesis
      by (cases "block (show_msg (s @ ''...'') w)")
        (auto simp add: create_action_def world_of_def show_msg_def called_def split: raised.splits)
  qed
  then show ?thesis
    by (simp add: create_action_def)
qed

theorem create_action_outcomes_witness:
  "create_action ''Fetching'' (failed ''no network'') fresh_world =
     Return (fresh_world\<lparr>calls := [ShowMsg ''Fetching...'',
                                      ShowMsg (''Fetching...failed'' @ [CHR 0x09] @ ''no network'')]\<rparr>) \<and>
   create_action ''Fetching'' broken_block fresh_world =
     Raise (Exception ''boom'')
       (fresh_world\<lparr>calls := [ShowMsg ''Fetching...'',
                                ShowMsg (''Fetching...error'' @ [CHR 0x09] @ ''boom'')]\<rparr>) \<and>
   create_action ''Fetching'' Return fresh_world =
     Return (fresh_world\<lparr>calls := [ShowMsg ''Fetching...'', ShowMsg ''Fetching...done'']\<rparr>) \<and>
   create_action ''Fetching'' interrupted_block fresh_world =
     Raise (BaseException ''KeyboardInterrupt'') (fresh_world\<lparr>calls := [ShowMsg ''Fetching...'']\<rparr>) \<and>
   (\<exists>cs. calls (world_of (create_action ''Fetching'' interrupted_block fresh_world)) =
      calls fresh_world @ ShowMsg ''Fetching...'' # cs)"
proof -
  let ?w = "show_msg (''Fetching'' @ ''...'') fresh_world"
  have a: "failed ''no network'' ?w = Raise (ActionError ''no network'') ?w"
    by (simp add: failed_def)
  have b: "broken_block ?w = Raise (Exception ''boom'') ?w"
    by (simp add: broken_block_def)
  have c: "Return ?w = (Return ?w :: (raised, (nat, rat) world) outcome)"
    by simp
  have d: "interrupted_block ?w = Raise (BaseException ''KeyboardInterrupt'') ?w"
    by (simp add: interrupted_block_def)
  have e: "\<forall>u. \<exists>cs. calls (world_of (interrupted_block u)) = calls u @ cs"
    by (simp add: interrupted_block_def world_of_def)
  have nocalls: "calls fresh_world = []"
    by (simp add: fresh_world_def)
  note t = create_action_outcomes [where s = "''Fetching''" and w = fresh_world]
  from t [where block = "failed ''no network''", THEN conjunct1, rule_format, OF a]
    t [where block = broken_block, THEN conjunct2, THEN conjunct1, rule_format, OF b]
    t [where block = Return, THEN conjunct2, THEN conjunct2, THEN conjunct1, rule_format, OF c]
    t [where block = interrupted_block, THEN conjunct2, THEN conjunct2, THEN conjunct2,
       THEN conjunct1, rule_format, OF d]
    t [where block = interrupted_block, THEN conjunct2, THEN conjunct2, THEN conjunct2,
       THEN conjunct2, THEN mp, OF e]
  show ?thesis
    by (simp add: show_msg_def called_def nocalls)
qed

end
